theory Spec2Isabelle
  imports Complex_Main "HOL-Library.Sublist"
begin

section \<open>Python values, exceptions and the outside world\<close>

text \<open>
  The module \<^verbatim>\<open>gemini_api.py\<close> handles values that come out of \<^verbatim>\<open>request.get_json()\<close>
  and \<^verbatim>\<open>yaml.safe_load\<close>: \<^verbatim>\<open>None\<close>, booleans, numbers, strings, lists and dictionaries
  with string keys. A Python \<^verbatim>\<open>str\<close> is kept as its UTF-8 bytes; the needles the
  code searches for (\<^verbatim>\<open>gs://\<close>, \<^verbatim>\<open>.mp4\<close>, \<^verbatim>\<open>NOT_FOUND\<close>, \<^verbatim>\<open>url\<close>) are ASCII, so a
  prefix, suffix or substring test on the bytes agrees with the one on code points.
  A dictionary is an association list in insertion order, looked up with \<open>map_of\<close>.
\<close>

datatype pyfloat = FloatVal rat | PosInf | NegInf | NaN

datatype pyval =
    PNone
  | PBool bool
  | PInt int
  | PFloat pyfloat
  | PStr string
  | PList "pyval list"
  | PDict "(string \<times> pyval) list"

text \<open>
  An exception object: its class name and what \<^verbatim>\<open>str(e)\<close> gives. These are the
  exceptions derived from \<^verbatim>\<open>Exception\<close>, the ones an \<^verbatim>\<open>except Exception\<close> clause catches.
\<close>

datatype exn = Exn (exn_class: string) (exn_str: string)

text \<open>The opaque object that \<^verbatim>\<open>model.generate_content\<close> returns, kept as its text.\<close>

datatype response = GenerationResponse string

text \<open>What a Cloud Function hands back: a response body and a status code.\<close>

datatype body = Text string | Responses response

record generation_config =
  max_output_tokens :: int
  temperature :: pyfloat
  response_mime_type :: string
  response_schema :: pyval

record part =
  mime_type :: string
  uri :: pyval

record generative_model =
  model_name :: string
  system_instruction :: string

datatype content = Video part | Prompt string

datatype http_method = POST | GET | PUT | DELETE

text \<open>
  The \<^verbatim>\<open>http_request\<close> dictionary of a task. The source sends
  \<^verbatim>\<open>json.dumps({"url": url}).encode()\<close> as the body; \<open>task_body\<close> holds the
  dictionary that is serialised.
\<close>

record http_request =
  task_http_method :: http_method
  task_url :: string
  task_headers :: "(string \<times> string) list"
  task_body :: pyval

text \<open>
  Every call that leaves the module is an event, with the arguments the source passes.
  The \<^verbatim>\<open>logging\<close> calls are left out: they write a line to the log and change neither
  what a function returns nor which calls it makes.
\<close>

datatype event =
    CloudTasksClient
  | Queue_path "string option" string pyval
  | Location_path "string option" string
  | Get_queue string
  | Create_queue string pyval
  | Create_task string http_request
  | Vertexai_init "string option" string
  | GenerationConfig generation_config
  | Part_from_uri part
  | GenerativeModel generative_model
  | Generate_content generative_model "content list" generation_config

text \<open>
  The outside world decides how each call ends, as a function of the whole history of
  calls up to and including the current one: whether it raises, and otherwise which
  string (\<^verbatim>\<open>queue_path\<close>, \<^verbatim>\<open>location_path\<close>, the \<^verbatim>\<open>name\<close> of a created task) or which
  response it returns. \<open>py_repr\<close> is Python's \<^verbatim>\<open>str()\<close> on numbers, lists and
  dictionaries, which the module only uses inside messages.
\<close>

record world =
  raises :: "event list \<Rightarrow> exn option"
  returns_str :: "event list \<Rightarrow> string"
  returns_response :: "event list \<Rightarrow> response"
  py_repr :: "pyval \<Rightarrow> string"

section \<open>Computations with a trace of external calls and exceptions\<close>

type_synonym 'a io = "event list \<Rightarrow> (exn + 'a) \<times> event list"

definition ret :: "'a \<Rightarrow> 'a io" where
  "ret x = (\<lambda>tr. (Inr x, tr))"

definition lift :: "exn + 'a \<Rightarrow> 'a io" where
  "lift r = (\<lambda>tr. (r, tr))"

definition then_do :: "'a io \<Rightarrow> ('a \<Rightarrow> 'b io) \<Rightarrow> 'b io" where
  "then_do m f = (\<lambda>tr. case m tr of (Inl e, tr') \<Rightarrow> (Inl e, tr') | (Inr x, tr') \<Rightarrow> f x tr')"

text \<open>\<^verbatim>\<open>try: m  except Exception as e: h(e)\<close>\<close>

definition try_except :: "'a io \<Rightarrow> (exn \<Rightarrow> 'a io) \<Rightarrow> 'a io" where
  "try_except m h = (\<lambda>tr. case m tr of (Inl e, tr') \<Rightarrow> h e tr' | (Inr x, tr') \<Rightarrow> (Inr x, tr'))"

definition ext_call :: "world \<Rightarrow> event \<Rightarrow> unit io" where
  "ext_call w ev = (\<lambda>tr.
     (case raises w (tr @ [ev]) of Some e \<Rightarrow> Inl e | None \<Rightarrow> Inr (), tr @ [ev]))"

definition ext_call_str :: "world \<Rightarrow> event \<Rightarrow> string io" where
  "ext_call_str w ev = (\<lambda>tr.
     (case raises w (tr @ [ev]) of Some e \<Rightarrow> Inl e | None \<Rightarrow> Inr (returns_str w (tr @ [ev])), tr @ [ev]))"

definition ext_call_response :: "world \<Rightarrow> event \<Rightarrow> response io" where
  "ext_call_response w ev = (\<lambda>tr.
     (case raises w (tr @ [ev]) of Some e \<Rightarrow> Inl e | None \<Rightarrow> Inr (returns_response w (tr @ [ev])), tr @ [ev]))"

section \<open>The Python operations the module applies to its values\<close>

text \<open>Truth value of an object in a condition.\<close>

fun truthy :: "pyval \<Rightarrow> bool" where
  "truthy PNone = False"
| "truthy (PBool b) = b"
| "truthy (PInt i) = (i \<noteq> 0)"
| "truthy (PFloat f) = (f \<noteq> FloatVal 0)"
| "truthy (PStr s) = (s \<noteq> [])"
| "truthy (PList xs) = (xs \<noteq> [])"
| "truthy (PDict kvs) = (kvs \<noteq> [])"

text \<open>The name of a value's type and a name between single quotes, as error messages show them.\<close>

definition type_name :: "pyval \<Rightarrow> string" where
  "type_name x = (case x of PNone \<Rightarrow> ''NoneType'' | PBool _ \<Rightarrow> ''bool'' | PInt _ \<Rightarrow> ''int''
     | PFloat _ \<Rightarrow> ''float'' | PStr _ \<Rightarrow> ''str'' | PList _ \<Rightarrow> ''list'' | PDict _ \<Rightarrow> ''dict'')"

definition quoted :: "string \<Rightarrow> string" where
  "quoted s = [CHR 0x27] @ s @ [CHR 0x27]"

text \<open>
  \<^verbatim>\<open>key in x\<close> for a string key: a key of a dictionary, an element of a list, a
  substring of a string; a \<^verbatim>\<open>TypeError\<close> on anything else.
\<close>

definition not_iterable :: "pyval \<Rightarrow> exn" where
  "not_iterable x = Exn ''TypeError'' (''argument of type '' @ quoted (type_name x) @ '' is not iterable'')"

fun py_in :: "string \<Rightarrow> pyval \<Rightarrow> exn + bool" where
  "py_in k (PDict kvs) = Inr (map_of kvs k \<noteq> None)"
| "py_in k (PList xs) = Inr (PStr k \<in> set xs)"
| "py_in k (PStr s) = Inr (sublist k s)"
| "py_in k x = Inl (not_iterable x)"

text \<open>\<^verbatim>\<open>x and key in x\<close>, used as a condition: the right operand only runs when \<open>x\<close> is true.\<close>

definition and_in :: "pyval \<Rightarrow> string \<Rightarrow> exn + bool" where
  "and_in x k = (if truthy x then py_in k x else Inr False)"

text \<open>\<^verbatim>\<open>x[key]\<close> for a string key.\<close>

definition not_subscriptable :: "pyval \<Rightarrow> exn" where
  "not_subscriptable x = Exn ''TypeError'' (quoted (type_name x) @ '' object is not subscriptable'')"

fun getitem :: "pyval \<Rightarrow> string \<Rightarrow> exn + pyval" where
  "getitem (PDict kvs) k =
     (case map_of kvs k of Some v \<Rightarrow> Inr v | None \<Rightarrow> Inl (Exn ''KeyError'' (quoted k)))"
| "getitem (PList xs) k = Inl (Exn ''TypeError'' ''list indices must be integers or slices, not str'')"
| "getitem (PStr s) k = Inl (Exn ''TypeError'' (''string indices must be integers, not '' @ quoted ''str''))"
| "getitem x k = Inl (not_subscriptable x)"

definition no_attribute :: "pyval \<Rightarrow> string \<Rightarrow> exn" where
  "no_attribute x a =
     Exn ''AttributeError'' (quoted (type_name x) @ '' object has no attribute '' @ quoted a)"

text \<open>\<^verbatim>\<open>x.get(key, default)\<close>: only a dictionary has the method.\<close>

definition dict_get :: "pyval \<Rightarrow> string \<Rightarrow> pyval \<Rightarrow> exn + pyval" where
  "dict_get x k d = (case x of
       PDict kvs \<Rightarrow> Inr (case map_of kvs k of Some v \<Rightarrow> v | None \<Rightarrow> d)
     | _ \<Rightarrow> Inl (no_attribute x ''get''))"

text \<open>\<^verbatim>\<open>x.startswith(p)\<close> and \<^verbatim>\<open>x.endswith(p)\<close>: only a string has the methods.\<close>

definition startswith :: "pyval \<Rightarrow> string \<Rightarrow> exn + bool" where
  "startswith x p = (case x of PStr s \<Rightarrow> Inr (prefix p s) | _ \<Rightarrow> Inl (no_attribute x ''startswith''))"

definition endswith :: "pyval \<Rightarrow> string \<Rightarrow> exn + bool" where
  "endswith x p = (case x of PStr s \<Rightarrow> Inr (suffix p s) | _ \<Rightarrow> Inl (no_attribute x ''endswith''))"

text \<open>A value inside an f-string.\<close>

definition py_str :: "world \<Rightarrow> pyval \<Rightarrow> string" where
  "py_str w x = (case x of
       PStr s \<Rightarrow> s
     | PNone \<Rightarrow> ''None''
     | PBool b \<Rightarrow> (if b then ''True'' else ''False'')
     | _ \<Rightarrow> py_repr w x)"

definition opt_str :: "string option \<Rightarrow> string" where
  "opt_str x = (case x of None \<Rightarrow> ''None'' | Some s \<Rightarrow> s)"

section \<open>Configuration\<close>

text \<open>
  \<^verbatim>\<open>PROJECT_ID = os.environ.get("PROJECT_ID")\<close>,
  \<^verbatim>\<open>LOCATION = os.environ.get("LOCATION", "us-central1")\<close>, and the two names.
\<close>

definition QUEUE_ID :: string where
  "QUEUE_ID = ''api-call-queue''"

definition FUNCTION_NAME :: string where
  "FUNCTION_NAME = ''api-call-worker''"

record globals =
  PROJECT_ID :: "string option"
  LOCATION :: string
  QUEUE_CONFIG :: pyval

text \<open>
  \<^verbatim>\<open>_load_queue_config\<close>: \<open>opened\<close> is how opening and reading \<^verbatim>\<open>queue_config.yaml\<close> ends,
  \<open>safe_load\<close> is \<^verbatim>\<open>yaml.safe_load\<close> on the text read. Any exception gives the empty
  dictionary.
\<close>

definition load_queue_config :: "exn + string \<Rightarrow> (string \<Rightarrow> exn + pyval) \<Rightarrow> pyval" where
  "load_queue_config opened safe_load =
     (case (case opened of Inl e \<Rightarrow> Inl e | Inr f \<Rightarrow> safe_load f) of
        Inr config \<Rightarrow> config
      | Inl e \<Rightarrow> PDict [])"

definition module_init ::
  "(string \<rightharpoonup> string) \<Rightarrow> exn + string \<Rightarrow> (string \<Rightarrow> exn + pyval) \<Rightarrow> globals" where
  "module_init environ opened safe_load =
     \<lparr>PROJECT_ID = environ ''PROJECT_ID'',
      LOCATION = (case environ ''LOCATION'' of Some l \<Rightarrow> l | None \<Rightarrow> ''us-central1''),
      QUEUE_CONFIG = load_queue_config opened safe_load\<rparr>"

section \<open>The classifier\<close>

definition the_response_schema :: pyval where
  "the_response_schema =
     PDict [(''type'', PStr ''object''),
            (''properties'', PDict [(''IAB_Category'', PDict [(''type'', PStr ''STRING'')])]),
            (''required'', PList [PStr ''IAB_Category''])]"

definition the_generation_config :: generation_config where
  "the_generation_config =
     \<lparr>max_output_tokens = 8192,
      temperature = FloatVal 0,
      response_mime_type = ''application/json'',
      response_schema = the_response_schema\<rparr>"

definition the_model :: generative_model where
  "the_model =
     \<lparr>model_name = ''gemini-1.5-pro-002'',
      system_instruction = ''You categorize a video ad into IAB categories. You return the name of only one IAB category which is the most relevant one''\<rparr>"

definition call_gemini :: "world \<Rightarrow> globals \<Rightarrow> pyval \<Rightarrow> body io" where
  "call_gemini w g video_url =
     try_except
       (then_do (ext_call w (Vertexai_init (PROJECT_ID g) (LOCATION g))) (\<lambda>_.
        then_do (ext_call w (GenerationConfig the_generation_config)) (\<lambda>_.
        let video = \<lparr>mime_type = ''video/mp4'', uri = video_url\<rparr> in
        then_do (ext_call w (Part_from_uri video)) (\<lambda>_.
        then_do (ext_call w (GenerativeModel the_model)) (\<lambda>_.
        then_do (ext_call_response w
                   (Generate_content the_model [Video video, Prompt ''Please classify'']
                      the_generation_config)) (\<lambda>responses.
        ret (Responses responses)))))))
       (\<lambda>e. ret (Text (''Gemini call failed for URL: '' @ py_str w video_url
                        @ ''. Error: '' @ exn_str e)))"

section \<open>The queue\<close>

definition create_cloud_task :: "world \<Rightarrow> globals \<Rightarrow> pyval \<Rightarrow> string io" where
  "create_cloud_task w g url =
     then_do (ext_call w CloudTasksClient) (\<lambda>client.
     then_do (lift (dict_get (QUEUE_CONFIG g) ''queue_id'' PNone)) (\<lambda>queue_id.
     then_do (ext_call_str w (Queue_path (PROJECT_ID g) (LOCATION g) queue_id)) (\<lambda>queue_path.
     let task = \<lparr>task_http_method = POST,
                 task_url = ''https://'' @ LOCATION g @ ''-'' @ opt_str (PROJECT_ID g)
                            @ ''.cloudfunctions.net/'' @ FUNCTION_NAME,
                 task_headers = [(''Content-type'', ''application/json'')],
                 task_body = PDict [(''url'', url)]\<rparr> in
     then_do (ext_call_str w (Create_task queue_path task)) (\<lambda>response_name.
     ret response_name))))"

definition create_queue :: "world \<Rightarrow> globals \<Rightarrow> unit io" where
  "create_queue w g =
     then_do (ext_call w CloudTasksClient) (\<lambda>client.
     then_do (lift (dict_get (QUEUE_CONFIG g) ''queue_id'' PNone)) (\<lambda>queue_id.
     then_do (ext_call_str w (Queue_path (PROJECT_ID g) (LOCATION g) queue_id)) (\<lambda>queue_path.
     try_except
       (ext_call w (Get_queue queue_path))
       (\<lambda>e. if sublist ''NOT_FOUND'' (exn_str e) then
               then_do (lift (dict_get (QUEUE_CONFIG g) ''rate_limits'' (PDict []))) (\<lambda>rate_limits.
               then_do (lift (dict_get (QUEUE_CONFIG g) ''retry_config'' (PDict []))) (\<lambda>retry_config.
               let queue = PDict [(''name'', PStr queue_path),
                                  (''rate_limits'', rate_limits),
                                  (''retry_config'', retry_config)] in
               then_do (ext_call_str w (Location_path (PROJECT_ID g) (LOCATION g))) (\<lambda>parent.
               ext_call w (Create_queue parent queue))))
             else ret ()))))"

section \<open>The two Cloud Functions\<close>

text \<open>A request is what its \<^verbatim>\<open>get_json()\<close> gives: a parsed value or an exception.\<close>

record request =
  get_json :: "exn + pyval"

definition api_endpoint :: "world \<Rightarrow> globals \<Rightarrow> request \<Rightarrow> (body \<times> int) io" where
  "api_endpoint w g request =
     try_except
       (then_do (create_queue w g) (\<lambda>_.
        then_do (lift (get_json request)) (\<lambda>request_json.
        then_do (lift (and_in request_json ''url'')) (\<lambda>has_url.
        if has_url then
          then_do (lift (getitem request_json ''url'')) (\<lambda>url.
          then_do (lift (startswith url ''gs://'')) (\<lambda>is_gcs.
          if \<not> is_gcs then
            ret (Text ''Error: URL must be a GCS path (start with gs://).'', 400)
          else
            then_do (lift (endswith url ''.mp4'')) (\<lambda>is_mp4.
            if \<not> is_mp4 then
              ret (Text ''Error: URL must point to an MP4 video file.'', 400)
            else
              then_do (create_cloud_task w g url) (\<lambda>task_name.
              ret (Text (''URL queued for processing. Task name: '' @ task_name), 202)))))
        else
          ret (Text ''Error: No URL provided in request body.'', 400)))))
       (\<lambda>e. ret (Text (''Error: '' @ exn_str e), 500))"

text \<open>
  In \<^verbatim>\<open>api_call_worker\<close> the handler formats the local variable \<^verbatim>\<open>video_url\<close>, which is
  \<^verbatim>\<open>None\<close> until the assignment inside the \<^verbatim>\<open>try\<close> block. The block is therefore split
  at the assignment: an exception before it meets the handler with \<open>PNone\<close>, one after
  it meets the handler with the value assigned. The handler itself cannot raise.
\<close>

definition worker_handler :: "world \<Rightarrow> pyval \<Rightarrow> exn \<Rightarrow> (body \<times> int) io" where
  "worker_handler w video_url e =
     ret (Text (''Non-Gemini Error for URL: '' @ py_str w video_url
                @ ''. Error: '' @ exn_str e), 500)"

definition api_call_worker :: "world \<Rightarrow> globals \<Rightarrow> request \<Rightarrow> (body \<times> int) io" where
  "api_call_worker w g request =
     try_except
       (then_do (lift (get_json request)) (\<lambda>request_json.
        then_do (lift (and_in request_json ''url'')) (\<lambda>has_url.
        if has_url then
          then_do (lift (getitem request_json ''url'')) (\<lambda>video_url.
          try_except
            (then_do (call_gemini w g video_url) (\<lambda>result.
             ret (result, 200)))
            (worker_handler w video_url))
        else
          ret (Text ''Error: No URL provided in request body.'', 400))))
       (worker_handler w PNone)"

text \<open>
  The two checks of \<^verbatim>\<open>api_endpoint\<close> on the url (lines 162 to 165 of the source), on
  their own: \<open>Inr (Some r)\<close> is the response \<open>r\<close> returned at once, \<open>Inr None\<close> lets the
  request through to \<^verbatim>\<open>create_cloud_task\<close>, and \<open>Inl e\<close> is the \<^verbatim>\<open>AttributeError\<close> of a
  url that is not a string.
\<close>

definition url_validation :: "pyval \<Rightarrow> exn + (body \<times> int) option" where
  "url_validation url =
     (case startswith url ''gs://'' of
        Inl e \<Rightarrow> Inl e
      | Inr is_gcs \<Rightarrow>
          if \<not> is_gcs then Inr (Some (Text ''Error: URL must be a GCS path (start with gs://).'', 400))
          else (case endswith url ''.mp4'' of
                  Inl e \<Rightarrow> Inl e
                | Inr is_mp4 \<Rightarrow>
                    if \<not> is_mp4 then Inr (Some (Text ''Error: URL must point to an MP4 video file.'', 400))
                    else Inr None))"

fun is_create_task :: "event \<Rightarrow> bool" where
  "is_create_task (Create_task qp t) = True"
| "is_create_task ev = False"

section \<open>Concrete worlds and requests\<close>

text \<open>
  A world where no call raises, worlds where one kind of call raises, and a request
  for one video.
\<close>

fun reply_str :: "event \<Rightarrow> string" where
  "reply_str (Queue_path p l q) = ''projects/proj/locations/us-central1/queues/None''"
| "reply_str (Location_path p l) = ''projects/proj/locations/us-central1''"
| "reply_str (Create_task qp t) = qp @ ''/tasks/1''"
| "reply_str ev = []"

definition calm_world :: world where
  "calm_world =
     \<lparr>raises = (\<lambda>tr. None),
      returns_str = (\<lambda>tr. if tr = [] then [] else reply_str (last tr)),
      returns_response = (\<lambda>tr. GenerationResponse ''IAB_Category: Automotive''),
      py_repr = (\<lambda>v. ''...'')\<rparr>"

definition failing_world :: "(event \<Rightarrow> exn option) \<Rightarrow> world" where
  "failing_world f = calm_world\<lparr>raises := (\<lambda>tr. if tr = [] then None else f (last tr))\<rparr>"

fun gemini_down :: "event \<Rightarrow> exn option" where
  "gemini_down (Generate_content m cs c) = Some (Exn ''ServiceUnavailable'' ''503 unreachable'')"
| "gemini_down ev = None"

fun lookup_denied :: "event \<Rightarrow> exn option" where
  "lookup_denied (Get_queue qp) = Some (Exn ''PermissionDenied'' ''403 permission denied'')"
| "lookup_denied ev = None"

fun queue_race :: "event \<Rightarrow> exn option" where
  "queue_race (Get_queue qp) = Some (Exn ''NotFound'' ''404 NOT_FOUND: queue does not exist'')"
| "queue_race (Create_queue p q) =
     Some (Exn ''AlreadyExists'' ''409 ALREADY_EXISTS: queue already exists'')"
| "queue_race ev = None"


definition some_globals :: globals where
  "some_globals = \<lparr>PROJECT_ID = Some ''proj'', LOCATION = ''us-central1'', QUEUE_CONFIG = PDict []\<rparr>"

definition null_config_globals :: globals where
  "null_config_globals = \<lparr>PROJECT_ID = Some ''proj'', LOCATION = ''us-central1'', QUEUE_CONFIG = PNone\<rparr>"

definition ad_request :: request where
  "ad_request = \<lparr>get_json = Inr (PDict [(''url'', PStr ''gs://bucket/ad.mp4'')])\<rparr>"

definition empty_request :: request where
  "empty_request = \<lparr>get_json = Inr (PDict [])\<rparr>"

definition list_request :: request where
  "list_request = \<lparr>get_json = Inr (PList [PStr ''url''])\<rparr>"

definition unparsable_request :: request where
  "unparsable_request = \<lparr>get_json = Inl (Exn ''BadRequest'' ''400 Bad Request'')\<rparr>"

section \<open>Running a computation\<close>

lemma ret_run: "ret x tr = (Inr x, tr)" by (simp add: ret_def)

lemma lift_run: "lift r tr = (r, tr)" by (simp add: lift_def)

lemma then_do_run:
  "then_do m f tr = (case m tr of (Inl e, tr') \<Rightarrow> (Inl e, tr') | (Inr x, tr') \<Rightarrow> f x tr')"
  by (simp add: then_do_def)

lemma try_except_run:
  "try_except m h tr = (case m tr of (Inl e, tr') \<Rightarrow> h e tr' | (Inr x, tr') \<Rightarrow> (Inr x, tr'))"
  by (simp add: try_except_def)

lemma ext_call_run:
  "ext_call w ev tr = (case raises w (tr @ [ev]) of Some e \<Rightarrow> Inl e | None \<Rightarrow> Inr (), tr @ [ev])"
  by (simp add: ext_call_def)

lemma ext_call_str_run:
  "ext_call_str w ev tr =
     (case raises w (tr @ [ev]) of Some e \<Rightarrow> Inl e | None \<Rightarrow> Inr (returns_str w (tr @ [ev])), tr @ [ev])"
  by (simp add: ext_call_str_def)

lemma ext_call_response_run:
  "ext_call_response w ev tr =
     (case raises w (tr @ [ev]) of Some e \<Rightarrow> Inl e | None \<Rightarrow> Inr (returns_response w (tr @ [ev])), tr @ [ev])"
  by (simp add: ext_call_response_def)

lemmas run_simps = ret_run lift_run then_do_run try_except_run ext_call_run ext_call_str_run
  ext_call_response_run

lemmas fixture_simps = calm_world_def failing_world_def some_globals_def ad_request_def
  empty_request_def list_request_def unparsable_request_def

section \<open>The classifier and the worker\<close>

lemma call_gemini_returns: "\<exists>b. fst (call_gemini w g video_url tr) = Inr b"
  by (auto simp: call_gemini_def run_simps Let_def split: option.splits)

lemma call_gemini_cases:
  "(\<exists>r tr'. call_gemini w g video_url tr = (Inr (Responses r), tr'))
   \<or> (\<exists>e tr'. call_gemini w g video_url tr =
         (Inr (Text (''Gemini call failed for URL: '' @ py_str w video_url @ ''. Error: '' @ exn_str e)), tr'))"
  by (auto simp: call_gemini_def run_simps Let_def split: option.splits)

lemma call_gemini_run:
  "call_gemini w g v tr =
     (let c1 = Vertexai_init (PROJECT_ID g) (LOCATION g);
          c2 = GenerationConfig the_generation_config;
          c3 = Part_from_uri \<lparr>mime_type = ''video/mp4'', uri = v\<rparr>;
          c4 = GenerativeModel the_model;
          c5 = Generate_content the_model
                 [Video \<lparr>mime_type = ''video/mp4'', uri = v\<rparr>, Prompt ''Please classify'']
                 the_generation_config;
          failed = (\<lambda>e. Inr (Text (''Gemini call failed for URL: '' @ py_str w v
                                     @ ''. Error: '' @ exn_str e)))
      in case raises w (tr @ [c1]) of Some e \<Rightarrow> (failed e, tr @ [c1]) | None \<Rightarrow>
         (case raises w (tr @ [c1, c2]) of Some e \<Rightarrow> (failed e, tr @ [c1, c2]) | None \<Rightarrow>
         (case raises w (tr @ [c1, c2, c3]) of Some e \<Rightarrow> (failed e, tr @ [c1, c2, c3]) | None \<Rightarrow>
         (case raises w (tr @ [c1, c2, c3, c4]) of Some e \<Rightarrow> (failed e, tr @ [c1, c2, c3, c4]) | None \<Rightarrow>
         (case raises w (tr @ [c1, c2, c3, c4, c5]) of
            Some e \<Rightarrow> (failed e, tr @ [c1, c2, c3, c4, c5])
          | None \<Rightarrow> (Inr (Responses (returns_response w (tr @ [c1, c2, c3, c4, c5]))),
                      tr @ [c1, c2, c3, c4, c5]))))))"
  by (simp add: call_gemini_def run_simps Let_def split: option.splits)

lemma call_gemini_first_raise:
  assumes calls: "calls =
     [Vertexai_init (PROJECT_ID g) (LOCATION g),
      GenerationConfig the_generation_config,
      Part_from_uri \<lparr>mime_type = ''video/mp4'', uri = v\<rparr>,
      GenerativeModel the_model,
      Generate_content the_model
        [Video \<lparr>mime_type = ''video/mp4'', uri = v\<rparr>, Prompt ''Please classify'']
        the_generation_config]"
    and n: "n \<in> {1, 2, 3, 4, 5}"
    and before: "\<forall>k. 1 \<le> k \<and> k < n \<longrightarrow> raises w (tr @ take k calls) = None"
    and at: "raises w (tr @ take n calls) = Some e"
  shows "call_gemini w g v tr =
     (Inr (Text (''Gemini call failed for URL: '' @ py_str w v @ ''. Error: '' @ exn_str e)),
      tr @ take n calls)"
proof -
  from n consider "n = 1" | "n = 2" | "n = 3" | "n = 4" | "n = 5" by auto
  then show ?thesis
  proof cases
    case 1
    with at show ?thesis
      unfolding calls by (simp add: call_gemini_run Let_def)
  next
    case 2
    with at before [rule_format, of 1] show ?thesis
      unfolding calls by (simp add: call_gemini_run Let_def numeral_eq_Suc)
  next
    case 3
    with at before [rule_format, of 1] before [rule_format, of 2] show ?thesis
      unfolding calls by (simp add: call_gemini_run Let_def numeral_eq_Suc)
  next
    case 4
    with at before [rule_format, of 1] before [rule_format, of 2] before [rule_format, of 3]
    show ?thesis
      unfolding calls by (simp add: call_gemini_run Let_def numeral_eq_Suc)
  next
    case 5
    with at before [rule_format, of 1] before [rule_format, of 2] before [rule_format, of 3]
      before [rule_format, of 4]
    show ?thesis
      unfolding calls by (simp add: call_gemini_run Let_def numeral_eq_Suc)
  qed
qed

lemma call_gemini_no_raise:
  assumes calls: "calls =
     [Vertexai_init (PROJECT_ID g) (LOCATION g),
      GenerationConfig the_generation_config,
      Part_from_uri \<lparr>mime_type = ''video/mp4'', uri = v\<rparr>,
      GenerativeModel the_model,
      Generate_content the_model
        [Video \<lparr>mime_type = ''video/mp4'', uri = v\<rparr>, Prompt ''Please classify'']
        the_generation_config]"
    and none: "\<forall>k\<in>{1, 2, 3, 4, 5}. raises w (tr @ take k calls) = None"
  shows "call_gemini w g v tr = (Inr (Responses (returns_response w (tr @ calls))), tr @ calls)"
proof -
  have "raises w (tr @ take 1 calls) = None" "raises w (tr @ take 2 calls) = None"
    "raises w (tr @ take 3 calls) = None" "raises w (tr @ take 4 calls) = None"
    "raises w (tr @ take 5 calls) = None"
    using none by simp_all
  then show ?thesis
    unfolding calls by (simp add: call_gemini_run Let_def numeral_eq_Suc)
qed

lemma and_in_dict:
  "and_in (PDict kvs) k = Inr (map_of kvs k \<noteq> None)"
  by (cases kvs) (auto simp: and_in_def)

lemma and_in_not_dict:
  "and_in rj ''url'' = Inr True \<Longrightarrow> \<forall>kvs. rj \<noteq> PDict kvs \<Longrightarrow> \<exists>e. getitem rj ''url'' = Inl e"
  by (cases rj) (auto simp: and_in_def split: if_splits)

lemma has_url_value:
  assumes "and_in rj ''url'' = Inr True" "getitem rj ''url'' = Inr url"
  shows "\<exists>kvs. rj = PDict kvs \<and> map_of kvs ''url'' = Some url"
  using assms by (cases rj) (auto simp: and_in_def split: if_splits option.splits)

lemma worker_no_url:
  assumes "and_in rj ''url'' = Inr False" "get_json request = Inr rj"
  shows "api_call_worker w g request tr = (Inr (Text ''Error: No URL provided in request body.'', 400), tr)"
  using assms by (simp add: api_call_worker_def run_simps)

lemma worker_parse_raises:
  assumes "get_json request = Inl e
         \<or> (\<exists>rj. get_json request = Inr rj \<and>
               (and_in rj ''url'' = Inl e \<or> (and_in rj ''url'' = Inr True \<and> getitem rj ''url'' = Inl e)))"
  shows "api_call_worker w g request tr =
     (Inr (Text (''Non-Gemini Error for URL: None. Error: '' @ exn_str e), 500), tr)"
  using assms by (auto simp add: api_call_worker_def worker_handler_def run_simps py_str_def)

lemma worker_classifies:
  assumes "get_json request = Inr rj" "and_in rj ''url'' = Inr True" "getitem rj ''url'' = Inr v"
  shows "api_call_worker w g request tr =
     (case call_gemini w g v tr of (Inl e, tr') \<Rightarrow> worker_handler w v e tr'
        | (Inr b, tr') \<Rightarrow> (Inr (b, 200), tr'))"
  using assms
  by (simp add: api_call_worker_def worker_handler_def run_simps split: prod.splits sum.splits)

lemma worker_classifies_200:
  assumes "get_json request = Inr rj" "and_in rj ''url'' = Inr True" "getitem rj ''url'' = Inr v"
  shows "\<exists>b. fst (call_gemini w g v tr) = Inr b \<and> fst (api_call_worker w g request tr) = Inr (b, 200)"
  using call_gemini_returns [of w g v tr]
  by (auto simp: worker_classifies [OF assms] split: prod.splits sum.splits)

text \<open>
  C1. For every request body that holds a \<^verbatim>\<open>url\<close> field whose value starts with
  \<^verbatim>\<open>gs://\<close> and ends with \<^verbatim>\<open>.mp4\<close>, \<^verbatim>\<open>api_call_worker\<close> returns status 200. When none
  of the five calls of the classifier raises, the body is the response that
  \<^verbatim>\<open>generate_content\<close> returned; when one of them raises, the body is the string
  \<^verbatim>\<open>Gemini call failed for URL: <url>. Error: <e>\<close> with the url of the request and the
  exception of the first call that raised, and no later call is made. \<^verbatim>\<open>call_gemini\<close>
  returns a value, never an exception, on every argument and in every world.
\<close>

theorem worker_valid_url_200:
  assumes "get_json request = Inr (PDict kvs)"
    and "map_of kvs ''url'' = Some (PStr u)"
    and "prefix ''gs://'' u" and "suffix ''.mp4'' u"
    and "calls =
     [Vertexai_init (PROJECT_ID g) (LOCATION g),
      GenerationConfig the_generation_config,
      Part_from_uri \<lparr>mime_type = ''video/mp4'', uri = PStr u\<rparr>,
      GenerativeModel the_model,
      Generate_content the_model
        [Video \<lparr>mime_type = ''video/mp4'', uri = PStr u\<rparr>, Prompt ''Please classify'']
        the_generation_config]"
  shows "((\<forall>k\<in>{1, 2, 3, 4, 5}. raises w (tr @ take k calls) = None) \<longrightarrow>
            api_call_worker w g request tr =
              (Inr (Responses (returns_response w (tr @ calls)), 200), tr @ calls))
       \<and> (\<forall>n e. n \<in> {1, 2, 3, 4, 5}
               \<and> (\<forall>k. 1 \<le> k \<and> k < n \<longrightarrow> raises w (tr @ take k calls) = None)
               \<and> raises w (tr @ take n calls) = Some e \<longrightarrow>
            api_call_worker w g request tr =
              (Inr (Text (''Gemini call failed for URL: '' @ u @ ''. Error: '' @ exn_str e), 200),
               tr @ take n calls))
       \<and> (\<exists>b. fst (call_gemini w g (PStr u) tr) = Inr b
            \<and> fst (api_call_worker w g request tr) = Inr (b, 200)
            \<and> ((\<exists>r. b = Responses r)
                 \<or> (\<exists>e. b = Text (''Gemini call failed for URL: '' @ u @ ''. Error: '' @ exn_str e))))
       \<and> (\<forall>video_url tr'. \<exists>b. fst (call_gemini w g video_url tr') = Inr b)"
proof -
  have y: "and_in (PDict kvs) ''url'' = Inr True"
    using assms(2) by (simp add: and_in_dict)
  have gi: "getitem (PDict kvs) ''url'' = Inr (PStr u)"
    using assms(2) by simp
  note W = worker_classifies [OF assms(1) y gi, of w g tr]
  have A: "api_call_worker w g request tr =
              (Inr (Responses (returns_response w (tr @ calls)), 200), tr @ calls)"
    if "\<forall>k\<in>{1, 2, 3, 4, 5}. raises w (tr @ take k calls) = None"
    unfolding W by (simp add: call_gemini_no_raise [OF assms(5) that])
  have B: "api_call_worker w g request tr =
              (Inr (Text (''Gemini call failed for URL: '' @ u @ ''. Error: '' @ exn_str e), 200),
               tr @ take n calls)"
    if "n \<in> {1, 2, 3, 4, 5}"
      "\<forall>k. 1 \<le> k \<and> k < n \<longrightarrow> raises w (tr @ take k calls) = None"
      "raises w (tr @ take n calls) = Some e" for n e
    unfolding W by (simp add: call_gemini_first_raise [OF assms(5) that] py_str_def)
  from worker_classifies_200 [OF assms(1) y gi, of w g tr] obtain b where
    b: "fst (call_gemini w g (PStr u) tr) = Inr b"
       "fst (api_call_worker w g request tr) = Inr (b, 200)" by blast
  from call_gemini_cases [of w g "PStr u" tr] b(1)
  have "(\<exists>r. b = Responses r)
      \<or> (\<exists>e. b = Text (''Gemini call failed for URL: '' @ u @ ''. Error: '' @ exn_str e))"
    by (auto simp: py_str_def)
  with b have C: "\<exists>b. fst (call_gemini w g (PStr u) tr) = Inr b
            \<and> fst (api_call_worker w g request tr) = Inr (b, 200)
            \<and> ((\<exists>r. b = Responses r)
                 \<or> (\<exists>e. b = Text (''Gemini call failed for URL: '' @ u @ ''. Error: '' @ exn_str e)))"
    by blast
  from A B C call_gemini_returns show ?thesis by blast
qed

theorem worker_valid_url_200_witness:
  "api_call_worker (failing_world gemini_down) some_globals ad_request [] =
     (Inr (Text (''Gemini call failed for URL: '' @ ''gs://bucket/ad.mp4'' @ ''. Error: ''
                 @ ''503 unreachable''), 200),
      [Vertexai_init (Some ''proj'') ''us-central1'',
       GenerationConfig the_generation_config,
       Part_from_uri \<lparr>mime_type = ''video/mp4'', uri = PStr ''gs://bucket/ad.mp4''\<rparr>,
       GenerativeModel the_model,
       Generate_content the_model
         [Video \<lparr>mime_type = ''video/mp4'', uri = PStr ''gs://bucket/ad.mp4''\<rparr>, Prompt ''Please classify'']
         the_generation_config])
   \<and> api_call_worker calm_world some_globals ad_request [] =
     (Inr (Responses (GenerationResponse ''IAB_Category: Automotive''), 200),
      [Vertexai_init (Some ''proj'') ''us-central1'',
       GenerationConfig the_generation_config,
       Part_from_uri \<lparr>mime_type = ''video/mp4'', uri = PStr ''gs://bucket/ad.mp4''\<rparr>,
       GenerativeModel the_model,
       Generate_content the_model
         [Video \<lparr>mime_type = ''video/mp4'', uri = PStr ''gs://bucket/ad.mp4''\<rparr>, Prompt ''Please classify'']
         the_generation_config])"
proof -
  have h1: "get_json ad_request = Inr (PDict [(''url'', PStr ''gs://bucket/ad.mp4'')])"
    by (simp add: ad_request_def)
  have h2: "map_of [(''url'', PStr ''gs://bucket/ad.mp4'')] ''url'' = Some (PStr ''gs://bucket/ad.mp4'')"
    by simp
  have h3: "prefix ''gs://'' ''gs://bucket/ad.mp4''" by simp
  have h4: "suffix ''.mp4'' ''gs://bucket/ad.mp4''" by (simp add: suffix_to_prefix)
  note T = worker_valid_url_200 [OF h1 h2 h3 h4 refl, where g = some_globals and tr = "[]"]
  have a: "api_call_worker (failing_world gemini_down) some_globals ad_request [] =
     (Inr (Text (''Gemini call failed for URL: '' @ ''gs://bucket/ad.mp4'' @ ''. Error: ''
                 @ ''503 unreachable''), 200),
      [Vertexai_init (Some ''proj'') ''us-central1'',
       GenerationConfig the_generation_config,
       Part_from_uri \<lparr>mime_type = ''video/mp4'', uri = PStr ''gs://bucket/ad.mp4''\<rparr>,
       GenerativeModel the_model,
       Generate_content the_model
         [Video \<lparr>mime_type = ''video/mp4'', uri = PStr ''gs://bucket/ad.mp4''\<rparr>, Prompt ''Please classify'']
         the_generation_config])"
  proof -
    let ?calls = "[Vertexai_init (PROJECT_ID some_globals) (LOCATION some_globals),
       GenerationConfig the_generation_config,
       Part_from_uri \<lparr>mime_type = ''video/mp4'', uri = PStr ''gs://bucket/ad.mp4''\<rparr>,
       GenerativeModel the_model,
       Generate_content the_model
         [Video \<lparr>mime_type = ''video/mp4'', uri = PStr ''gs://bucket/ad.mp4''\<rparr>, Prompt ''Please classify'']
         the_generation_config]"
    have n: "(5::nat) \<in> {1, 2, 3, 4, 5}" by simp
    have p: "\<forall>k. 1 \<le> k \<and> k < 5 \<longrightarrow>
               raises (failing_world gemini_down) ([] @ take k ?calls) = None"
    proof (intro allI impI)
      fix k :: nat
      assume "1 \<le> k \<and> k < 5"
      then consider "k = 1" | "k = 2" | "k = 3" | "k = 4" by linarith
      then show "raises (failing_world gemini_down) ([] @ take k ?calls) = None"
        by cases (simp_all add: fixture_simps numeral_eq_Suc)
    qed
    have at: "raises (failing_world gemini_down) ([] @ take 5 ?calls) =
                Some (Exn ''ServiceUnavailable'' ''503 unreachable'')"
      by (simp add: fixture_simps)
    from T [where w = "failing_world gemini_down", THEN conjunct2, THEN conjunct1, rule_format,
        OF conjI [OF n conjI [OF p at]]]
    show ?thesis by (simp add: some_globals_def)
  qed
  have b: "api_call_worker calm_world some_globals ad_request [] =
     (Inr (Responses (GenerationResponse ''IAB_Category: Automotive''), 200),
      [Vertexai_init (Some ''proj'') ''us-central1'',
       GenerationConfig the_generation_config,
       Part_from_uri \<lparr>mime_type = ''video/mp4'', uri = PStr ''gs://bucket/ad.mp4''\<rparr>,
       GenerativeModel the_model,
       Generate_content the_model
         [Video \<lparr>mime_type = ''video/mp4'', uri = PStr ''gs://bucket/ad.mp4''\<rparr>, Prompt ''Please classify'']
         the_generation_config])"
    using T [where w = calm_world, THEN conjunct1]
    by (simp add: fixture_simps)
  from a b show ?thesis by blast
qed

text \<open>
  C4, as amended. When the parsed body is not a dictionary, or is a dictionary without
  the key \<^verbatim>\<open>url\<close>, \<^verbatim>\<open>api_call_worker\<close> makes no external call, so \<^verbatim>\<open>call_gemini\<close> is not
  invoked. The status is 400 when the body is \<^verbatim>\<open>None\<close> or such a dictionary, and more
  generally when the body is false as a condition or is a list or string that does not
  contain \<^verbatim>\<open>url\<close>. For the other bodies (a number or \<^verbatim>\<open>true\<close>, a list with the element
  \<^verbatim>\<open>url\<close>, a string with the substring \<^verbatim>\<open>url\<close>) the test or the subscript raises a
  \<^verbatim>\<open>TypeError\<close>, which the handler turns into status 500.
\<close>

theorem worker_missing_url:
  assumes "get_json request = Inr rj"
    and "\<forall>kvs. rj = PDict kvs \<longrightarrow> map_of kvs ''url'' = None"
  shows "snd (api_call_worker w g request tr) = tr
     \<and> ((rj = PNone \<or> (\<exists>kvs. rj = PDict kvs)) \<longrightarrow>
          fst (api_call_worker w g request tr) =
            Inr (Text ''Error: No URL provided in request body.'', 400))
     \<and> (\<not> truthy rj \<or> py_in ''url'' rj = Inr False \<longrightarrow>
          fst (api_call_worker w g request tr) =
            Inr (Text ''Error: No URL provided in request body.'', 400))
     \<and> (truthy rj \<and> py_in ''url'' rj \<noteq> Inr False \<longrightarrow>
          (\<exists>e. fst (api_call_worker w g request tr) =
            Inr (Text (''Non-Gemini Error for URL: None. Error: '' @ exn_str e), 500)))"
proof -
  consider (no) "and_in rj ''url'' = Inr False"
    | (raise) e where "and_in rj ''url'' = Inl e"
    | (yes) "and_in rj ''url'' = Inr True"
    by (cases "and_in rj ''url''") auto
  then show ?thesis
  proof cases
    case no
    have "rj = PNone \<or> (\<exists>kvs. rj = PDict kvs) \<Longrightarrow> and_in rj ''url'' = Inr False"
      using assms(2) by (auto simp: and_in_def)
    with no show ?thesis
      using worker_no_url [OF no assms(1), of w g tr]
      by (auto simp: and_in_def split: if_splits)
  next
    case raise
    then have t: "truthy rj" "py_in ''url'' rj = Inl e"
      by (auto simp: and_in_def split: if_splits)
    have nd: "rj \<noteq> PNone" "\<forall>kvs. rj \<noteq> PDict kvs" using t by auto
    show ?thesis
      using worker_parse_raises [of request e w g tr] assms(1) raise t nd by auto
  next
    case yes
    then have t: "truthy rj" "py_in ''url'' rj = Inr True"
      by (auto simp: and_in_def split: if_splits)
    have nd: "\<forall>kvs. rj \<noteq> PDict kvs"
      using assms(2) yes by (auto simp: and_in_dict)
    then obtain e where e: "getitem rj ''url'' = Inl e"
      using and_in_not_dict [OF yes] by blast
    have "rj \<noteq> PNone" using t by auto
    then show ?thesis
      using worker_parse_raises [of request e w g tr] assms(1) yes e t nd by auto
  qed
qed

theorem worker_missing_url_witness:
  "snd (api_call_worker calm_world some_globals empty_request []) = []
   \<and> fst (api_call_worker calm_world some_globals empty_request []) =
       Inr (Text ''Error: No URL provided in request body.'', 400)"
proof -
  have h1: "get_json empty_request = Inr (PDict [])" by (simp add: empty_request_def)
  have h2: "\<forall>kvs. PDict [] = PDict kvs \<longrightarrow> map_of kvs ''url'' = None" by simp
  from worker_missing_url [OF h1 h2, of calm_world some_globals "[]"]
  show ?thesis by blast
qed

text \<open>
  The claim as stated fails on the body \<^verbatim>\<open>["url"]\<close>, which is not a JSON object: the
  status is 500.
\<close>

theorem worker_missing_url_counterexample:
  "api_call_worker calm_world some_globals list_request [] =
     (Inr (Text ''Non-Gemini Error for URL: None. Error: list indices must be integers or slices, not str'',
           500), [])"
  by (simp add: api_call_worker_def worker_handler_def run_simps and_in_def py_str_def fixture_simps)

lemma worker_status_500:
  "((\<exists>b. fst (api_call_worker w g request tr) = Inr (b, 500)) \<longleftrightarrow>
      (\<exists>e. get_json request = Inl e
         \<or> (\<exists>rj. get_json request = Inr rj \<and>
               (and_in rj ''url'' = Inl e \<or> (and_in rj ''url'' = Inr True \<and> getitem rj ''url'' = Inl e)))))
   \<and> (\<forall>e. get_json request = Inl e
         \<or> (\<exists>rj. get_json request = Inr rj \<and>
               (and_in rj ''url'' = Inl e \<or> (and_in rj ''url'' = Inr True \<and> getitem rj ''url'' = Inl e)))
        \<longrightarrow> api_call_worker w g request tr =
              (Inr (Text (''Non-Gemini Error for URL: None. Error: '' @ exn_str e), 500), tr))
   \<and> (\<forall>rj v. get_json request = Inr rj \<and> and_in rj ''url'' = Inr True \<and> getitem rj ''url'' = Inr v
        \<longrightarrow> (\<exists>b. fst (call_gemini w g v tr) = Inr b
                \<and> fst (api_call_worker w g request tr) = Inr (b, 200)))"
proof -
  have A: "\<forall>e. get_json request = Inl e
         \<or> (\<exists>rj. get_json request = Inr rj \<and>
               (and_in rj ''url'' = Inl e \<or> (and_in rj ''url'' = Inr True \<and> getitem rj ''url'' = Inl e)))
        \<longrightarrow> api_call_worker w g request tr =
              (Inr (Text (''Non-Gemini Error for URL: None. Error: '' @ exn_str e), 500), tr)"
    using worker_parse_raises by blast
  have B: "\<forall>rj v. get_json request = Inr rj \<and> and_in rj ''url'' = Inr True \<and> getitem rj ''url'' = Inr v
        \<longrightarrow> (\<exists>b. fst (call_gemini w g v tr) = Inr b
                \<and> fst (api_call_worker w g request tr) = Inr (b, 200))"
    using worker_classifies_200 by blast
  have C: "(\<exists>b. fst (api_call_worker w g request tr) = Inr (b, 500)) \<longleftrightarrow>
      (\<exists>e. get_json request = Inl e
         \<or> (\<exists>rj. get_json request = Inr rj \<and>
               (and_in rj ''url'' = Inl e \<or> (and_in rj ''url'' = Inr True \<and> getitem rj ''url'' = Inl e))))"
  proof
    assume L: "\<exists>b. fst (api_call_worker w g request tr) = Inr (b, 500)"
    show "\<exists>e. get_json request = Inl e
         \<or> (\<exists>rj. get_json request = Inr rj \<and>
               (and_in rj ''url'' = Inl e \<or> (and_in rj ''url'' = Inr True \<and> getitem rj ''url'' = Inl e)))"
    proof (cases "get_json request")
      case (Inl e) then show ?thesis by blast
    next
      case (Inr rj)
      show ?thesis
      proof (cases "and_in rj ''url''")
        case (Inl e) with Inr show ?thesis by blast
      next
        case ai: (Inr c)
        show ?thesis
        proof (cases c)
          case False
          with ai have "and_in rj ''url'' = Inr False" by simp
          from worker_no_url [OF this Inr, of w g tr] L show ?thesis by simp
        next
          case True
          with ai have y: "and_in rj ''url'' = Inr True" by simp
          show ?thesis
          proof (cases "getitem rj ''url''")
            case (Inl e) with Inr y show ?thesis by blast
          next
            case gi: (Inr v)
            from worker_classifies_200 [OF Inr y gi, of w g tr] L show ?thesis by auto
          qed
        qed
      qed
    qed
  next
    assume "\<exists>e. get_json request = Inl e
         \<or> (\<exists>rj. get_json request = Inr rj \<and>
               (and_in rj ''url'' = Inl e \<or> (and_in rj ''url'' = Inr True \<and> getitem rj ''url'' = Inl e)))"
    then obtain e where "get_json request = Inl e
         \<or> (\<exists>rj. get_json request = Inr rj \<and>
               (and_in rj ''url'' = Inl e \<or> (and_in rj ''url'' = Inr True \<and> getitem rj ''url'' = Inl e)))"
      by blast
    from worker_parse_raises [OF this, of w g tr]
    show "\<exists>b. fst (api_call_worker w g request tr) = Inr (b, 500)" by simp
  qed
  from A B C show ?thesis by blast
qed

text \<open>
  C5, as amended. \<^verbatim>\<open>api_call_worker\<close> answers 500 exactly when an exception is raised
  before the classifier is called: by \<^verbatim>\<open>get_json\<close>, by the test \<^verbatim>\<open>"url" in request_json\<close>
  or by the subscript \<^verbatim>\<open>request_json["url"]\<close>. The message is then
  \<^verbatim>\<open>Non-Gemini Error for URL: None. Error: <e>\<close>: the url it echoes is \<^verbatim>\<open>None\<close>, since
  \<^verbatim>\<open>video_url\<close> has not been assigned yet. Once the url has been read, the status is
  200 with what \<^verbatim>\<open>call_gemini\<close> returned: when one of the classifier's calls raises, the
  string \<^verbatim>\<open>Gemini call failed for URL: <url>. Error: <e>\<close> for the first exception raised,
  and when none raises, the response of \<^verbatim>\<open>generate_content\<close>.
\<close>

theorem worker_500_only_before_classifier:
  "((\<exists>b. fst (api_call_worker w g request tr) = Inr (b, 500)) \<longleftrightarrow>
      (\<exists>e. get_json request = Inl e
         \<or> (\<exists>rj. get_json request = Inr rj \<and>
               (and_in rj ''url'' = Inl e \<or> (and_in rj ''url'' = Inr True \<and> getitem rj ''url'' = Inl e)))))
   \<and> (\<forall>e. get_json request = Inl e
         \<or> (\<exists>rj. get_json request = Inr rj \<and>
               (and_in rj ''url'' = Inl e \<or> (and_in rj ''url'' = Inr True \<and> getitem rj ''url'' = Inl e)))
        \<longrightarrow> api_call_worker w g request tr =
              (Inr (Text (''Non-Gemini Error for URL: None. Error: '' @ exn_str e), 500), tr))
   \<and> (\<forall>rj v. get_json request = Inr rj \<and> and_in rj ''url'' = Inr True \<and> getitem rj ''url'' = Inr v
        \<longrightarrow> (\<exists>b. fst (call_gemini w g v tr) = Inr b
                \<and> fst (api_call_worker w g request tr) = Inr (b, 200)))
   \<and> (get_json request = Inr rj \<and> and_in rj ''url'' = Inr True \<and> getitem rj ''url'' = Inr v
        \<and> calls =
             [Vertexai_init (PROJECT_ID g) (LOCATION g),
              GenerationConfig the_generation_config,
              Part_from_uri \<lparr>mime_type = ''video/mp4'', uri = v\<rparr>,
              GenerativeModel the_model,
              Generate_content the_model
                [Video \<lparr>mime_type = ''video/mp4'', uri = v\<rparr>, Prompt ''Please classify'']
                the_generation_config]
        \<and> n \<in> {1, 2, 3, 4, 5}
        \<and> (\<forall>k. 1 \<le> k \<and> k < n \<longrightarrow> raises w (tr @ take k calls) = None)
        \<and> raises w (tr @ take n calls) = Some e'
        \<longrightarrow> api_call_worker w g request tr =
              (Inr (Text (''Gemini call failed for URL: '' @ py_str w v @ ''. Error: '' @ exn_str e'), 200),
               tr @ take n calls))
   \<and> (get_json request = Inr rj \<and> and_in rj ''url'' = Inr True \<and> getitem rj ''url'' = Inr v
        \<and> calls =
             [Vertexai_init (PROJECT_ID g) (LOCATION g),
              GenerationConfig the_generation_config,
              Part_from_uri \<lparr>mime_type = ''video/mp4'', uri = v\<rparr>,
              GenerativeModel the_model,
              Generate_content the_model
                [Video \<lparr>mime_type = ''video/mp4'', uri = v\<rparr>, Prompt ''Please classify'']
                the_generation_config]
        \<and> (\<forall>k\<in>{1, 2, 3, 4, 5}. raises w (tr @ take k calls) = None)
        \<longrightarrow> api_call_worker w g request tr =
              (Inr (Responses (returns_response w (tr @ calls)), 200), tr @ calls))"
proof -
  have D: "api_call_worker w g request tr =
              (Inr (Text (''Gemini call failed for URL: '' @ py_str w v @ ''. Error: '' @ exn_str e'), 200),
               tr @ take n calls)"
    if r: "get_json request = Inr rj" "and_in rj ''url'' = Inr True" "getitem rj ''url'' = Inr v"
      and c: "calls =
             [Vertexai_init (PROJECT_ID g) (LOCATION g),
              GenerationConfig the_generation_config,
              Part_from_uri \<lparr>mime_type = ''video/mp4'', uri = v\<rparr>,
              GenerativeModel the_model,
              Generate_content the_model
                [Video \<lparr>mime_type = ''video/mp4'', uri = v\<rparr>, Prompt ''Please classify'']
                the_generation_config]"
      and f: "n \<in> {1, 2, 3, 4, 5}"
        "\<forall>k. 1 \<le> k \<and> k < n \<longrightarrow> raises w (tr @ take k calls) = None"
        "raises w (tr @ take n calls) = Some e'"
    unfolding worker_classifies [OF r] by (simp add: call_gemini_first_raise [OF c f])
  have E: "api_call_worker w g request tr =
              (Inr (Responses (returns_response w (tr @ calls)), 200), tr @ calls)"
    if r: "get_json request = Inr rj" "and_in rj ''url'' = Inr True" "getitem rj ''url'' = Inr v"
      and c: "calls =
             [Vertexai_init (PROJECT_ID g) (LOCATION g),
              GenerationConfig the_generation_config,
              Part_from_uri \<lparr>mime_type = ''video/mp4'', uri = v\<rparr>,
              GenerativeModel the_model,
              Generate_content the_model
                [Video \<lparr>mime_type = ''video/mp4'', uri = v\<rparr>, Prompt ''Please classify'']
                the_generation_config]"
      and f: "\<forall>k\<in>{1, 2, 3, 4, 5}. raises w (tr @ take k calls) = None"
    unfolding worker_classifies [OF r] by (simp add: call_gemini_no_raise [OF c f])
  from worker_status_500 [of w g request tr] D E show ?thesis by blast
qed

theorem worker_500_only_before_classifier_witness:
  "api_call_worker calm_world some_globals unparsable_request [] =
     (Inr (Text (''Non-Gemini Error for URL: None. Error: '' @ ''400 Bad Request''), 500), [])
   \<and> (\<exists>b. fst (api_call_worker calm_world some_globals unparsable_request []) = Inr (b, 500))
   \<and> (\<exists>b. fst (call_gemini calm_world some_globals (PStr ''gs://bucket/ad.mp4'') []) = Inr b
          \<and> fst (api_call_worker calm_world some_globals ad_request []) = Inr (b, 200))
   \<and> api_call_worker (failing_world gemini_down) some_globals ad_request [] =
     (Inr (Text (''Gemini call failed for URL: '' @ ''gs://bucket/ad.mp4'' @ ''. Error: ''
                 @ ''503 unreachable''), 200),
      [Vertexai_init (Some ''proj'') ''us-central1'',
       GenerationConfig the_generation_config,
       Part_from_uri \<lparr>mime_type = ''video/mp4'', uri = PStr ''gs://bucket/ad.mp4''\<rparr>,
       GenerativeModel the_model,
       Generate_content the_model
         [Video \<lparr>mime_type = ''video/mp4'', uri = PStr ''gs://bucket/ad.mp4''\<rparr>, Prompt ''Please classify'']
         the_generation_config])
   \<and> api_call_worker calm_world some_globals ad_request [] =
     (Inr (Responses (GenerationResponse ''IAB_Category: Automotive''), 200),
      [Vertexai_init (Some ''proj'') ''us-central1'',
       GenerationConfig the_generation_config,
       Part_from_uri \<lparr>mime_type = ''video/mp4'', uri = PStr ''gs://bucket/ad.mp4''\<rparr>,
       GenerativeModel the_model,
       Generate_content the_model
         [Video \<lparr>mime_type = ''video/mp4'', uri = PStr ''gs://bucket/ad.mp4''\<rparr>, Prompt ''Please classify'']
         the_generation_config])"
proof -
  let ?calls = "[Vertexai_init (PROJECT_ID some_globals) (LOCATION some_globals),
       GenerationConfig the_generation_config,
       Part_from_uri \<lparr>mime_type = ''video/mp4'', uri = PStr ''gs://bucket/ad.mp4''\<rparr>,
       GenerativeModel the_model,
       Generate_content the_model
         [Video \<lparr>mime_type = ''video/mp4'', uri = PStr ''gs://bucket/ad.mp4''\<rparr>, Prompt ''Please classify'']
         the_generation_config]"
  have h: "get_json unparsable_request = Inl (Exn ''BadRequest'' ''400 Bad Request'')"
    by (simp add: unparsable_request_def)
  note T = worker_500_only_before_classifier [of calm_world some_globals unparsable_request "[]"]
  from T have a: "api_call_worker calm_world some_globals unparsable_request [] =
     (Inr (Text (''Non-Gemini Error for URL: None. Error: '' @ ''400 Bad Request''), 500), [])"
    using h by (metis exn.sel(2))
  from T have b: "\<exists>b. fst (api_call_worker calm_world some_globals unparsable_request []) = Inr (b, 500)"
    using h by blast
  have k: "get_json ad_request = Inr (PDict [(''url'', PStr ''gs://bucket/ad.mp4'')])"
    "and_in (PDict [(''url'', PStr ''gs://bucket/ad.mp4'')]) ''url'' = Inr True"
    "getitem (PDict [(''url'', PStr ''gs://bucket/ad.mp4'')]) ''url'' = Inr (PStr ''gs://bucket/ad.mp4'')"
    by (simp_all add: ad_request_def and_in_def)
  from worker_500_only_before_classifier [of calm_world some_globals ad_request "[]"] k
  have c: "\<exists>b. fst (call_gemini calm_world some_globals (PStr ''gs://bucket/ad.mp4'') []) = Inr b
          \<and> fst (api_call_worker calm_world some_globals ad_request []) = Inr (b, 200)"
    by blast
  have n: "(5::nat) \<in> {1, 2, 3, 4, 5}" by simp
  have p: "\<forall>k. 1 \<le> k \<and> k < 5 \<longrightarrow>
             raises (failing_world gemini_down) ([] @ take k ?calls) = None"
  proof (intro allI impI)
    fix k :: nat
    assume "1 \<le> k \<and> k < 5"
    then consider "k = 1" | "k = 2" | "k = 3" | "k = 4" by linarith
    then show "raises (failing_world gemini_down) ([] @ take k ?calls) = None"
      by cases (simp_all add: fixture_simps numeral_eq_Suc)
  qed
  have at: "raises (failing_world gemini_down) ([] @ take 5 ?calls) =
              Some (Exn ''ServiceUnavailable'' ''503 unreachable'')"
    by (simp add: fixture_simps)
  have "api_call_worker (failing_world gemini_down) some_globals ad_request [] =
     (Inr (Text (''Gemini call failed for URL: ''
                 @ py_str (failing_world gemini_down) (PStr ''gs://bucket/ad.mp4'') @ ''. Error: ''
                 @ exn_str (Exn ''ServiceUnavailable'' ''503 unreachable'')), 200),
      [] @ take 5 ?calls)"
    by (rule worker_500_only_before_classifier [THEN conjunct2, THEN conjunct2, THEN conjunct2, THEN conjunct1, rule_format,
        OF conjI [OF k(1) conjI [OF k(2) conjI [OF k(3) conjI [OF refl conjI [OF n conjI [OF p at]]]]]]])
  then have d: "api_call_worker (failing_world gemini_down) some_globals ad_request [] =
     (Inr (Text (''Gemini call failed for URL: '' @ ''gs://bucket/ad.mp4'' @ ''. Error: ''
                 @ ''503 unreachable''), 200),
      [Vertexai_init (Some ''proj'') ''us-central1'',
       GenerationConfig the_generation_config,
       Part_from_uri \<lparr>mime_type = ''video/mp4'', uri = PStr ''gs://bucket/ad.mp4''\<rparr>,
       GenerativeModel the_model,
       Generate_content the_model
         [Video \<lparr>mime_type = ''video/mp4'', uri = PStr ''gs://bucket/ad.mp4''\<rparr>, Prompt ''Please classify'']
         the_generation_config])"
    by (simp add: some_globals_def py_str_def)
  have q: "\<forall>k\<in>{1, 2, 3, 4, 5}. raises calm_world ([] @ take k ?calls) = None"
    by (simp add: calm_world_def)
  have "api_call_worker calm_world some_globals ad_request [] =
     (Inr (Responses (returns_response calm_world ([] @ ?calls)), 200), [] @ ?calls)"
    by (rule worker_500_only_before_classifier [THEN conjunct2, THEN conjunct2, THEN conjunct2, THEN conjunct2, rule_format,
        OF conjI [OF k(1) conjI [OF k(2) conjI [OF k(3) conjI [OF refl q]]]]])
  then have e: "api_call_worker calm_world some_globals ad_request [] =
     (Inr (Responses (GenerationResponse ''IAB_Category: Automotive''), 200),
      [Vertexai_init (Some ''proj'') ''us-central1'',
       GenerationConfig the_generation_config,
       Part_from_uri \<lparr>mime_type = ''video/mp4'', uri = PStr ''gs://bucket/ad.mp4''\<rparr>,
       GenerativeModel the_model,
       Generate_content the_model
         [Video \<lparr>mime_type = ''video/mp4'', uri = PStr ''gs://bucket/ad.mp4''\<rparr>, Prompt ''Please classify'']
         the_generation_config])"
    by (simp add: some_globals_def calm_world_def)
  from a b c d e show ?thesis by blast
qed

text \<open>
  The claim as stated fails when the model cannot be reached: the classifier fails, and
  the worker answers 200 with the classifier's message.
\<close>

theorem worker_classifier_failure_counterexample:
  "api_call_worker (failing_world gemini_down) some_globals ad_request [] =
     (Inr (Text ''Gemini call failed for URL: gs://bucket/ad.mp4. Error: 503 unreachable'', 200),
      [Vertexai_init (Some ''proj'') ''us-central1'',
       GenerationConfig the_generation_config,
       Part_from_uri \<lparr>mime_type = ''video/mp4'', uri = PStr ''gs://bucket/ad.mp4''\<rparr>,
       GenerativeModel the_model,
       Generate_content the_model
         [Video \<lparr>mime_type = ''video/mp4'', uri = PStr ''gs://bucket/ad.mp4''\<rparr>, Prompt ''Please classify'']
         the_generation_config])"
  by (simp add: api_call_worker_def call_gemini_def run_simps fixture_simps and_in_def py_str_def Let_def)

text \<open>
  C9. The external calls of \<^verbatim>\<open>call_gemini\<close> are an initial part of the five calls listed
  below, cut at the first one that raises; when none of the first four raises, the fifth
  is made. The request to the model therefore always carries the url as the \<^verbatim>\<open>uri\<close> of
  a video part, the fixed system instruction, temperature 0.0, at most 8192 output
  tokens, and a response schema that is an object with the one required string field
  \<^verbatim>\<open>IAB_Category\<close> (besides the model name, the prompt \<^verbatim>\<open>Please classify\<close> and the mime
  types).
\<close>

theorem call_gemini_request:
  assumes "calls =
     [Vertexai_init (PROJECT_ID g) (LOCATION g),
      GenerationConfig
        \<lparr>max_output_tokens = 8192, temperature = FloatVal 0,
         response_mime_type = ''application/json'',
         response_schema =
           PDict [(''type'', PStr ''object''),
                  (''properties'', PDict [(''IAB_Category'', PDict [(''type'', PStr ''STRING'')])]),
                  (''required'', PList [PStr ''IAB_Category''])]\<rparr>,
      Part_from_uri \<lparr>mime_type = ''video/mp4'', uri = video_url\<rparr>,
      GenerativeModel
        \<lparr>model_name = ''gemini-1.5-pro-002'',
         system_instruction = ''You categorize a video ad into IAB categories. You return the name of only one IAB category which is the most relevant one''\<rparr>,
      Generate_content
        \<lparr>model_name = ''gemini-1.5-pro-002'',
         system_instruction = ''You categorize a video ad into IAB categories. You return the name of only one IAB category which is the most relevant one''\<rparr>
        [Video \<lparr>mime_type = ''video/mp4'', uri = video_url\<rparr>, Prompt ''Please classify'']
        \<lparr>max_output_tokens = 8192, temperature = FloatVal 0,
         response_mime_type = ''application/json'',
         response_schema =
           PDict [(''type'', PStr ''object''),
                  (''properties'', PDict [(''IAB_Category'', PDict [(''type'', PStr ''STRING'')])]),
                  (''required'', PList [PStr ''IAB_Category''])]\<rparr>]"
  shows "(\<exists>n. 1 \<le> n \<and> snd (call_gemini w g video_url tr) = tr @ take n calls)
     \<and> ((\<forall>n\<in>{1, 2, 3, 4}. raises w (tr @ take n calls) = None) \<longrightarrow>
            snd (call_gemini w g video_url tr) = tr @ calls)"
proof -
  have c: "calls =
     [Vertexai_init (PROJECT_ID g) (LOCATION g),
      GenerationConfig the_generation_config,
      Part_from_uri \<lparr>mime_type = ''video/mp4'', uri = video_url\<rparr>,
      GenerativeModel the_model,
      Generate_content the_model
        [Video \<lparr>mime_type = ''video/mp4'', uri = video_url\<rparr>, Prompt ''Please classify'']
        the_generation_config]"
    unfolding assms by (simp add: the_generation_config_def the_response_schema_def the_model_def)
  have run: "snd (call_gemini w g video_url tr) =
     (if raises w (tr @ take 1 calls) \<noteq> None then tr @ take 1 calls
      else if raises w (tr @ take 2 calls) \<noteq> None then tr @ take 2 calls
      else if raises w (tr @ take 3 calls) \<noteq> None then tr @ take 3 calls
      else if raises w (tr @ take 4 calls) \<noteq> None then tr @ take 4 calls
      else tr @ take 5 calls)"
    unfolding c
    by (auto simp: call_gemini_def run_simps Let_def numeral_eq_Suc split: option.splits)
  have A: "\<exists>n. 1 \<le> n \<and> snd (call_gemini w g video_url tr) = tr @ take n calls"
  proof -
    have "snd (call_gemini w g video_url tr) \<in> (\<lambda>n. tr @ take n calls) ` {1, 2, 3, 4, 5}"
      unfolding run by simp
    then obtain n where "n \<in> {1, 2, 3, 4, 5}" "snd (call_gemini w g video_url tr) = tr @ take n calls"
      by blast
    then have "1 \<le> n \<and> snd (call_gemini w g video_url tr) = tr @ take n calls" by auto
    then show ?thesis by (rule exI)
  qed
  have "take 5 calls = calls" unfolding c by simp
  then have B: "(\<forall>n\<in>{1, 2, 3, 4}. raises w (tr @ take n calls) = None) \<longrightarrow>
            snd (call_gemini w g video_url tr) = tr @ calls"
    unfolding run by simp
  from A B show ?thesis by blast
qed

theorem call_gemini_request_witness:
  "snd (call_gemini calm_world some_globals (PStr ''gs://bucket/ad.mp4'') []) =
     [Vertexai_init (Some ''proj'') ''us-central1'',
      GenerationConfig
        \<lparr>max_output_tokens = 8192, temperature = FloatVal 0,
         response_mime_type = ''application/json'',
         response_schema =
           PDict [(''type'', PStr ''object''),
                  (''properties'', PDict [(''IAB_Category'', PDict [(''type'', PStr ''STRING'')])]),
                  (''required'', PList [PStr ''IAB_Category''])]\<rparr>,
      Part_from_uri \<lparr>mime_type = ''video/mp4'', uri = PStr ''gs://bucket/ad.mp4''\<rparr>,
      GenerativeModel
        \<lparr>model_name = ''gemini-1.5-pro-002'',
         system_instruction = ''You categorize a video ad into IAB categories. You return the name of only one IAB category which is the most relevant one''\<rparr>,
      Generate_content
        \<lparr>model_name = ''gemini-1.5-pro-002'',
         system_instruction = ''You categorize a video ad into IAB categories. You return the name of only one IAB category which is the most relevant one''\<rparr>
        [Video \<lparr>mime_type = ''video/mp4'', uri = PStr ''gs://bucket/ad.mp4''\<rparr>, Prompt ''Please classify'']
        \<lparr>max_output_tokens = 8192, temperature = FloatVal 0,
         response_mime_type = ''application/json'',
         response_schema =
           PDict [(''type'', PStr ''object''),
                  (''properties'', PDict [(''IAB_Category'', PDict [(''type'', PStr ''STRING'')])]),
                  (''required'', PList [PStr ''IAB_Category''])]\<rparr>]"
  using call_gemini_request [where w = calm_world and g = some_globals and tr = "[]"
      and video_url = "PStr ''gs://bucket/ad.mp4''", OF refl]
  by (simp add: calm_world_def some_globals_def)

section \<open>The queue and the intake endpoint\<close>

lemma create_queue_trace:
  "\<exists>evs. snd (create_queue w g tr) = tr @ evs \<and> (\<forall>ev\<in>set evs. \<not> is_create_task ev)"
  by (auto simp: create_queue_def run_simps Let_def split: option.splits sum.splits prod.splits)

lemma create_cloud_task_trace:
  "\<exists>evs. snd (create_cloud_task w g url tr) = tr @ CloudTasksClient # evs
     \<and> (\<forall>qp t. Create_task qp t \<in> set evs \<longrightarrow> task_body t = PDict [(''url'', url)])"
  by (auto simp: create_cloud_task_def run_simps Let_def split: option.splits sum.splits prod.splits)

lemma create_queue_lookup_raises:
  assumes "raises w (tr @ [CloudTasksClient]) = None"
    and "dict_get (QUEUE_CONFIG g) ''queue_id'' PNone = Inr queue_id"
    and "raises w (tr @ [CloudTasksClient, Queue_path (PROJECT_ID g) (LOCATION g) queue_id]) = None"
    and "returns_str w (tr @ [CloudTasksClient, Queue_path (PROJECT_ID g) (LOCATION g) queue_id]) = queue_path"
    and "raises w (tr @ [CloudTasksClient, Queue_path (PROJECT_ID g) (LOCATION g) queue_id,
                         Get_queue queue_path]) = Some e"
  shows "create_queue w g tr =
     (if sublist ''NOT_FOUND'' (exn_str e) then
        then_do (lift (dict_get (QUEUE_CONFIG g) ''rate_limits'' (PDict []))) (\<lambda>rate_limits.
        then_do (lift (dict_get (QUEUE_CONFIG g) ''retry_config'' (PDict []))) (\<lambda>retry_config.
        then_do (ext_call_str w (Location_path (PROJECT_ID g) (LOCATION g))) (\<lambda>parent.
        ext_call w (Create_queue parent
           (PDict [(''name'', PStr queue_path), (''rate_limits'', rate_limits),
                   (''retry_config'', retry_config)])))))
      else ret ())
       (tr @ [CloudTasksClient, Queue_path (PROJECT_ID g) (LOCATION g) queue_id, Get_queue queue_path])"
  using assms by (simp add: create_queue_def run_simps Let_def)

lemma endpoint_queue_raises:
  "fst (create_queue w g tr) = Inl e \<Longrightarrow>
     api_endpoint w g request tr = (Inr (Text (''Error: '' @ exn_str e), 500), snd (create_queue w g tr))"
  by (cases "create_queue w g tr") (simp add: api_endpoint_def run_simps)

lemma endpoint_after_queue:
  "fst (create_queue w g tr) = Inr () \<Longrightarrow>
     api_endpoint w g request tr =
       try_except
        (then_do (lift (get_json request)) (\<lambda>request_json.
        then_do (lift (and_in request_json ''url'')) (\<lambda>has_url.
        if has_url then
          then_do (lift (getitem request_json ''url'')) (\<lambda>url.
          then_do (lift (startswith url ''gs://'')) (\<lambda>is_gcs.
          if \<not> is_gcs then
            ret (Text ''Error: URL must be a GCS path (start with gs://).'', 400)
          else
            then_do (lift (endswith url ''.mp4'')) (\<lambda>is_mp4.
            if \<not> is_mp4 then
              ret (Text ''Error: URL must point to an MP4 video file.'', 400)
            else
              then_do (create_cloud_task w g url) (\<lambda>task_name.
              ret (Text (''URL queued for processing. Task name: '' @ task_name), 202)))))
        else
          ret (Text ''Error: No URL provided in request body.'', 400))))
       (\<lambda>e. ret (Text (''Error: '' @ exn_str e), 500)) (snd (create_queue w g tr))"
  by (cases "create_queue w g tr") (simp add: api_endpoint_def run_simps)

lemma endpoint_with_url:
  assumes "fst (create_queue w g tr) = Inr ()"
    and "get_json request = Inr rj" "and_in rj ''url'' = Inr True" "getitem rj ''url'' = Inr url"
  shows "api_endpoint w g request tr =
     (case url_validation url of
        Inl e \<Rightarrow> (Inr (Text (''Error: '' @ exn_str e), 500), snd (create_queue w g tr))
      | Inr (Some r) \<Rightarrow> (Inr r, snd (create_queue w g tr))
      | Inr None \<Rightarrow>
          (case create_cloud_task w g url (snd (create_queue w g tr)) of
             (Inl e, tr') \<Rightarrow> (Inr (Text (''Error: '' @ exn_str e), 500), tr')
           | (Inr task_name, tr') \<Rightarrow>
               (Inr (Text (''URL queued for processing. Task name: '' @ task_name), 202), tr')))"
  using assms(2-)
  by (simp add: endpoint_after_queue [OF assms(1)] run_simps url_validation_def
      split: sum.splits prod.splits)

lemma endpoint_no_url:
  assumes "fst (create_queue w g tr) = Inr ()"
    and "get_json request = Inr rj" "and_in rj ''url'' = Inr False"
  shows "api_endpoint w g request tr =
     (Inr (Text ''Error: No URL provided in request body.'', 400), snd (create_queue w g tr))"
  using assms(2-) by (simp add: endpoint_after_queue [OF assms(1)] run_simps)

lemma endpoint_parse_raises:
  assumes "fst (create_queue w g tr) = Inr ()"
    and "get_json request = Inl e
         \<or> (\<exists>rj. get_json request = Inr rj \<and>
               (and_in rj ''url'' = Inl e \<or> (and_in rj ''url'' = Inr True \<and> getitem rj ''url'' = Inl e)))"
  shows "api_endpoint w g request tr =
     (Inr (Text (''Error: '' @ exn_str e), 500), snd (create_queue w g tr))"
  using assms(2-) by (auto simp add: endpoint_after_queue [OF assms(1)] run_simps)

lemma url_validation_passes:
  "url_validation url = Inr None \<longleftrightarrow> (\<exists>u. url = PStr u \<and> prefix ''gs://'' u \<and> suffix ''.mp4'' u)"
  by (cases url) (auto simp: url_validation_def startswith_def endswith_def)

lemma endpoint_beyond_queue:
  assumes "snd (api_endpoint w g request tr) \<noteq> snd (create_queue w g tr)"
  shows "\<exists>kvs u. get_json request = Inr (PDict kvs) \<and> map_of kvs ''url'' = Some (PStr u)
           \<and> prefix ''gs://'' u \<and> suffix ''.mp4'' u
           \<and> fst (create_queue w g tr) = Inr ()
           \<and> snd (api_endpoint w g request tr) =
               snd (create_cloud_task w g (PStr u) (snd (create_queue w g tr)))"
proof (cases "fst (create_queue w g tr)")
  case (Inl e)
  from endpoint_queue_raises [OF this] assms show ?thesis by simp
next
  case (Inr x)
  then have q: "fst (create_queue w g tr) = Inr ()" by simp
  show ?thesis
  proof (cases "get_json request")
    case (Inl e)
    with endpoint_parse_raises [OF q, of request e] assms show ?thesis by simp
  next
    case rj: (Inr rj)
    show ?thesis
    proof (cases "and_in rj ''url''")
      case (Inl e)
      with endpoint_parse_raises [OF q, of request e] rj assms show ?thesis by simp
    next
      case (Inr c)
      show ?thesis
      proof (cases c)
        case False
        with Inr endpoint_no_url [OF q rj] assms show ?thesis by simp
      next
        case True
        with Inr have y: "and_in rj ''url'' = Inr True" by simp
        show ?thesis
        proof (cases "getitem rj ''url''")
          case (Inl e)
          with endpoint_parse_raises [OF q, of request e] rj y assms show ?thesis by simp
        next
          case gi: (Inr url)
          note E = endpoint_with_url [OF q rj y gi]
          from has_url_value [OF y gi] obtain kvs where
            kvs: "rj = PDict kvs" "map_of kvs ''url'' = Some url" by blast
          have "url_validation url = Inr None"
            using assms unfolding E by (auto split: sum.splits option.splits)
          then obtain u where u: "url = PStr u" "prefix ''gs://'' u" "suffix ''.mp4'' u"
            using url_validation_passes by blast
          have "url_validation (PStr u) = Inr None" using u url_validation_passes by blast
          then have "snd (api_endpoint w g request tr) =
               snd (create_cloud_task w g (PStr u) (snd (create_queue w g tr)))"
            unfolding E u(1) by (auto split: sum.splits option.splits prod.splits)
          with kvs u rj q show ?thesis by blast
        qed
      qed
    qed
  qed
qed

lemmas endpoint_simps = api_endpoint_def create_queue_def create_cloud_task_def run_simps
  and_in_def startswith_def endswith_def dict_get_def opt_str_def FUNCTION_NAME_def Let_def
  suffix_to_prefix sublist_code

text \<open>
  C2. Every \<^verbatim>\<open>create_task\<close> call that \<^verbatim>\<open>api_endpoint\<close> makes belongs to a request whose
  body is a dictionary with a string \<^verbatim>\<open>url\<close> that starts with \<^verbatim>\<open>gs://\<close> and ends with
  \<^verbatim>\<open>.mp4\<close>, and the task carries that url.
\<close>

theorem task_only_for_valid_url:
  assumes "Create_task qp t \<in> set (snd (api_endpoint w g request tr))"
    and "\<forall>ev\<in>set tr. \<not> is_create_task ev"
  shows "\<exists>kvs u. get_json request = Inr (PDict kvs) \<and> map_of kvs ''url'' = Some (PStr u)
           \<and> prefix ''gs://'' u \<and> suffix ''.mp4'' u
           \<and> task_body t = PDict [(''url'', PStr u)]"
proof -
  obtain evs where evs: "snd (create_queue w g tr) = tr @ evs" "\<forall>ev\<in>set evs. \<not> is_create_task ev"
    using create_queue_trace by blast
  have notq: "Create_task qp t \<notin> set (snd (create_queue w g tr))"
    using evs assms(2) by auto
  with assms(1) have "snd (api_endpoint w g request tr) \<noteq> snd (create_queue w g tr)" by auto
  from endpoint_beyond_queue [OF this] obtain kvs u where
    v: "get_json request = Inr (PDict kvs)" "map_of kvs ''url'' = Some (PStr u)"
       "prefix ''gs://'' u" "suffix ''.mp4'' u"
    and s: "snd (api_endpoint w g request tr) =
               snd (create_cloud_task w g (PStr u) (snd (create_queue w g tr)))" by blast
  obtain evs' where evs': "snd (create_cloud_task w g (PStr u) (snd (create_queue w g tr))) =
       snd (create_queue w g tr) @ CloudTasksClient # evs'"
     "\<forall>qp t. Create_task qp t \<in> set evs' \<longrightarrow> task_body t = PDict [(''url'', PStr u)]"
    using create_cloud_task_trace by blast
  have "Create_task qp t \<in> set evs'"
    using assms(1) notq unfolding s evs'(1) by auto
  with evs'(2) have "task_body t = PDict [(''url'', PStr u)]" by blast
  with v show ?thesis by blast
qed

theorem task_only_for_valid_url_witness:
  "\<exists>kvs u. get_json ad_request = Inr (PDict kvs) \<and> map_of kvs ''url'' = Some (PStr u)
           \<and> prefix ''gs://'' u \<and> suffix ''.mp4'' u
           \<and> task_body
                \<lparr>task_http_method = POST,
                 task_url = ''https://us-central1-proj.cloudfunctions.net/api-call-worker'',
                 task_headers = [(''Content-type'', ''application/json'')],
                 task_body = PDict [(''url'', PStr ''gs://bucket/ad.mp4'')]\<rparr>
               = PDict [(''url'', PStr u)]"
proof -
  have h1: "Create_task ''projects/proj/locations/us-central1/queues/None''
              \<lparr>task_http_method = POST,
               task_url = ''https://us-central1-proj.cloudfunctions.net/api-call-worker'',
               task_headers = [(''Content-type'', ''application/json'')],
               task_body = PDict [(''url'', PStr ''gs://bucket/ad.mp4'')]\<rparr>
            \<in> set (snd (api_endpoint calm_world some_globals ad_request []))"
    by (simp add: endpoint_simps fixture_simps)
  have h2: "\<forall>ev\<in>set []. \<not> is_create_task ev" by simp
  show ?thesis using task_only_for_valid_url [OF h1 h2] .
qed

text \<open>
  C3. The two checks on the url run in this order: a string that does not start with
  \<^verbatim>\<open>gs://\<close> gets the scheme message with status 400; one that starts with \<^verbatim>\<open>gs://\<close> but
  does not end with \<^verbatim>\<open>.mp4\<close> (compared character by character) gets the extension message
  with status 400; one that passes both is handed to \<^verbatim>\<open>create_cloud_task\<close> with no
  further check. The last conjunct ties \<open>url_validation\<close> to \<^verbatim>\<open>api_endpoint\<close>: once
  \<^verbatim>\<open>create_queue\<close> has returned, the endpoint answers what the checks say.
\<close>

theorem validator_rules:
  "(\<not> prefix ''gs://'' u \<longrightarrow>
      url_validation (PStr u) = Inr (Some (Text ''Error: URL must be a GCS path (start with gs://).'', 400)))
   \<and> (prefix ''gs://'' u \<and> \<not> suffix ''.mp4'' u \<longrightarrow>
      url_validation (PStr u) = Inr (Some (Text ''Error: URL must point to an MP4 video file.'', 400)))
   \<and> (prefix ''gs://'' u \<and> suffix ''.mp4'' u \<longrightarrow> url_validation (PStr u) = Inr None)
   \<and> (fst (create_queue w g tr) = Inr () \<and> get_json request = Inr (PDict kvs)
        \<and> map_of kvs ''url'' = Some (PStr u) \<longrightarrow>
      api_endpoint w g request tr =
        (case url_validation (PStr u) of
           Inl e \<Rightarrow> (Inr (Text (''Error: '' @ exn_str e), 500), snd (create_queue w g tr))
         | Inr (Some r) \<Rightarrow> (Inr r, snd (create_queue w g tr))
         | Inr None \<Rightarrow>
             (case create_cloud_task w g (PStr u) (snd (create_queue w g tr)) of
                (Inl e, tr') \<Rightarrow> (Inr (Text (''Error: '' @ exn_str e), 500), tr')
              | (Inr task_name, tr') \<Rightarrow>
                  (Inr (Text (''URL queued for processing. Task name: '' @ task_name), 202), tr'))))"
proof -
  have link: "api_endpoint w g request tr =
        (case url_validation (PStr u) of
           Inl e \<Rightarrow> (Inr (Text (''Error: '' @ exn_str e), 500), snd (create_queue w g tr))
         | Inr (Some r) \<Rightarrow> (Inr r, snd (create_queue w g tr))
         | Inr None \<Rightarrow>
             (case create_cloud_task w g (PStr u) (snd (create_queue w g tr)) of
                (Inl e, tr') \<Rightarrow> (Inr (Text (''Error: '' @ exn_str e), 500), tr')
              | (Inr task_name, tr') \<Rightarrow>
                  (Inr (Text (''URL queued for processing. Task name: '' @ task_name), 202), tr')))"
    if q: "fst (create_queue w g tr) = Inr ()" and rj: "get_json request = Inr (PDict kvs)"
      and u: "map_of kvs ''url'' = Some (PStr u)"
  proof -
    have y: "and_in (PDict kvs) ''url'' = Inr True" using u by (simp add: and_in_dict)
    have gi: "getitem (PDict kvs) ''url'' = Inr (PStr u)" using u by simp
    show ?thesis by (rule endpoint_with_url [OF q rj y gi])
  qed
  have rules: "(\<not> prefix ''gs://'' u \<longrightarrow>
      url_validation (PStr u) = Inr (Some (Text ''Error: URL must be a GCS path (start with gs://).'', 400)))
   \<and> (prefix ''gs://'' u \<and> \<not> suffix ''.mp4'' u \<longrightarrow>
      url_validation (PStr u) = Inr (Some (Text ''Error: URL must point to an MP4 video file.'', 400)))
   \<and> (prefix ''gs://'' u \<and> suffix ''.mp4'' u \<longrightarrow> url_validation (PStr u) = Inr None)"
    by (simp add: url_validation_def startswith_def endswith_def)
  from rules link show ?thesis by blast
qed

theorem validator_rules_witness:
  "url_validation (PStr ''http://bucket/ad.mp4'') =
      Inr (Some (Text ''Error: URL must be a GCS path (start with gs://).'', 400))
   \<and> url_validation (PStr ''gs://bucket/ad.mov'') =
      Inr (Some (Text ''Error: URL must point to an MP4 video file.'', 400))
   \<and> url_validation (PStr ''gs://bucket/ad.mp4'') = Inr None
   \<and> api_endpoint calm_world some_globals ad_request [] =
      (Inr (Text ''URL queued for processing. Task name: projects/proj/locations/us-central1/queues/None/tasks/1'', 202),
       [CloudTasksClient, Queue_path (Some ''proj'') ''us-central1'' PNone,
        Get_queue ''projects/proj/locations/us-central1/queues/None'',
        CloudTasksClient, Queue_path (Some ''proj'') ''us-central1'' PNone,
        Create_task ''projects/proj/locations/us-central1/queues/None''
          \<lparr>task_http_method = POST,
           task_url = ''https://us-central1-proj.cloudfunctions.net/api-call-worker'',
           task_headers = [(''Content-type'', ''application/json'')],
           task_body = PDict [(''url'', PStr ''gs://bucket/ad.mp4'')]\<rparr>])"
proof -
  have a: "url_validation (PStr ''http://bucket/ad.mp4'') =
      Inr (Some (Text ''Error: URL must be a GCS path (start with gs://).'', 400))"
    using validator_rules [of "''http://bucket/ad.mp4''"] by simp
  have b: "url_validation (PStr ''gs://bucket/ad.mov'') =
      Inr (Some (Text ''Error: URL must point to an MP4 video file.'', 400))"
    using validator_rules [of "''gs://bucket/ad.mov''"] by (simp add: suffix_to_prefix)
  have c: "url_validation (PStr ''gs://bucket/ad.mp4'') = Inr None"
    using validator_rules [of "''gs://bucket/ad.mp4''"] by (simp add: suffix_to_prefix)
  have q: "create_queue calm_world some_globals [] =
      (Inr (), [CloudTasksClient, Queue_path (Some ''proj'') ''us-central1'' PNone,
                Get_queue ''projects/proj/locations/us-central1/queues/None''])"
    by (simp add: create_queue_def run_simps dict_get_def fixture_simps)
  have t: "create_cloud_task calm_world some_globals (PStr ''gs://bucket/ad.mp4'')
       [CloudTasksClient, Queue_path (Some ''proj'') ''us-central1'' PNone,
                Get_queue ''projects/proj/locations/us-central1/queues/None''] =
      (Inr ''projects/proj/locations/us-central1/queues/None/tasks/1'',
       [CloudTasksClient, Queue_path (Some ''proj'') ''us-central1'' PNone,
        Get_queue ''projects/proj/locations/us-central1/queues/None'',
        CloudTasksClient, Queue_path (Some ''proj'') ''us-central1'' PNone,
        Create_task ''projects/proj/locations/us-central1/queues/None''
          \<lparr>task_http_method = POST,
           task_url = ''https://us-central1-proj.cloudfunctions.net/api-call-worker'',
           task_headers = [(''Content-type'', ''application/json'')],
           task_body = PDict [(''url'', PStr ''gs://bucket/ad.mp4'')]\<rparr>])"
    by (simp add: create_cloud_task_def run_simps dict_get_def opt_str_def FUNCTION_NAME_def
        Let_def fixture_simps)
  have d: "api_endpoint calm_world some_globals ad_request [] =
      (Inr (Text ''URL queued for processing. Task name: projects/proj/locations/us-central1/queues/None/tasks/1'', 202),
       [CloudTasksClient, Queue_path (Some ''proj'') ''us-central1'' PNone,
        Get_queue ''projects/proj/locations/us-central1/queues/None'',
        CloudTasksClient, Queue_path (Some ''proj'') ''us-central1'' PNone,
        Create_task ''projects/proj/locations/us-central1/queues/None''
          \<lparr>task_http_method = POST,
           task_url = ''https://us-central1-proj.cloudfunctions.net/api-call-worker'',
           task_headers = [(''Content-type'', ''application/json'')],
           task_body = PDict [(''url'', PStr ''gs://bucket/ad.mp4'')]\<rparr>])"
    using validator_rules [of "''gs://bucket/ad.mp4''" calm_world some_globals "[]" ad_request
        "[(''url'', PStr ''gs://bucket/ad.mp4'')]"]
    by (simp add: q t c ad_request_def)
  from a b c d show ?thesis by blast
qed

text \<open>
  C6, as amended. When \<^verbatim>\<open>get_queue\<close> raises an exception whose text does not contain
  \<^verbatim>\<open>NOT_FOUND\<close>, \<^verbatim>\<open>create_queue\<close> does not attempt to create the queue, and it returns
  normally: the failure is logged and not passed on to the caller.
\<close>

theorem lookup_failure_swallowed:
  assumes "raises w (tr @ [CloudTasksClient]) = None"
    and "dict_get (QUEUE_CONFIG g) ''queue_id'' PNone = Inr queue_id"
    and "raises w (tr @ [CloudTasksClient, Queue_path (PROJECT_ID g) (LOCATION g) queue_id]) = None"
    and "returns_str w (tr @ [CloudTasksClient, Queue_path (PROJECT_ID g) (LOCATION g) queue_id]) = queue_path"
    and "raises w (tr @ [CloudTasksClient, Queue_path (PROJECT_ID g) (LOCATION g) queue_id,
                         Get_queue queue_path]) = Some e"
    and "\<not> sublist ''NOT_FOUND'' (exn_str e)"
  shows "create_queue w g tr =
     (Inr (), tr @ [CloudTasksClient, Queue_path (PROJECT_ID g) (LOCATION g) queue_id,
                    Get_queue queue_path])"
  using assms(6) by (simp add: create_queue_lookup_raises [OF assms(1-5)] run_simps)

theorem lookup_failure_swallowed_witness:
  "create_queue (failing_world lookup_denied) some_globals [] =
     (Inr (), [] @ [CloudTasksClient, Queue_path (PROJECT_ID some_globals) (LOCATION some_globals) PNone,
               Get_queue ''projects/proj/locations/us-central1/queues/None''])"
proof -
  have h1: "raises (failing_world lookup_denied) ([] @ [CloudTasksClient]) = None"
    by (simp add: fixture_simps)
  have h2: "dict_get (QUEUE_CONFIG some_globals) ''queue_id'' PNone = Inr PNone"
    by (simp add: dict_get_def fixture_simps)
  have h3: "raises (failing_world lookup_denied)
      ([] @ [CloudTasksClient, Queue_path (PROJECT_ID some_globals) (LOCATION some_globals) PNone]) = None"
    by (simp add: fixture_simps)
  have h4: "returns_str (failing_world lookup_denied)
      ([] @ [CloudTasksClient, Queue_path (PROJECT_ID some_globals) (LOCATION some_globals) PNone]) =
      ''projects/proj/locations/us-central1/queues/None''"
    by (simp add: fixture_simps)
  have h5: "raises (failing_world lookup_denied)
      ([] @ [CloudTasksClient, Queue_path (PROJECT_ID some_globals) (LOCATION some_globals) PNone,
             Get_queue ''projects/proj/locations/us-central1/queues/None'']) =
      Some (Exn ''PermissionDenied'' ''403 permission denied'')"
    by (simp add: fixture_simps)
  have h6: "\<not> sublist ''NOT_FOUND'' (exn_str (Exn ''PermissionDenied'' ''403 permission denied''))"
    by (simp add: sublist_code)
  show ?thesis using lookup_failure_swallowed [OF h1 h2 h3 h4 h5 h6] .
qed

text \<open>
  The claim as stated fails when the lookup is refused: \<^verbatim>\<open>create_queue\<close> returns normally
  and \<^verbatim>\<open>api_endpoint\<close> goes on to create the task and answer 202.
\<close>

theorem lookup_failure_counterexample:
  "fst (create_queue (failing_world lookup_denied) some_globals []) = Inr ()
   \<and> fst (api_endpoint (failing_world lookup_denied) some_globals ad_request []) =
       Inr (Text ''URL queued for processing. Task name: projects/proj/locations/us-central1/queues/None/tasks/1'', 202)"
  by (simp add: endpoint_simps fixture_simps)


lemma endpoint_trace_facts:
  "(\<exists>evs. snd (create_queue w g tr) = tr @ CloudTasksClient # evs)
   \<and> prefix (snd (create_queue w g tr)) (snd (api_endpoint w g request tr))
   \<and> (\<not> (\<exists>kvs u. get_json request = Inr (PDict kvs) \<and> map_of kvs ''url'' = Some (PStr u)
              \<and> prefix ''gs://'' u \<and> suffix ''.mp4'' u) \<longrightarrow>
        snd (api_endpoint w g request tr) = snd (create_queue w g tr)
        \<and> (\<exists>evs. snd (api_endpoint w g request tr) = tr @ evs \<and> (\<forall>ev\<in>set evs. \<not> is_create_task ev)))"
proof -
  have A: "\<exists>evs. snd (create_queue w g tr) = tr @ CloudTasksClient # evs"
    by (auto simp: create_queue_def run_simps Let_def split: option.splits sum.splits prod.splits)
  have B: "prefix (snd (create_queue w g tr)) (snd (api_endpoint w g request tr))"
  proof (cases "snd (api_endpoint w g request tr) = snd (create_queue w g tr)")
    case True then show ?thesis by simp
  next
    case False
    from endpoint_beyond_queue [OF False] obtain u where
      "snd (api_endpoint w g request tr) =
               snd (create_cloud_task w g (PStr u) (snd (create_queue w g tr)))" by blast
    with create_cloud_task_trace [of w g "PStr u" "snd (create_queue w g tr)"]
    show ?thesis by auto
  qed
  have C: "snd (api_endpoint w g request tr) = snd (create_queue w g tr)
        \<and> (\<exists>evs. snd (api_endpoint w g request tr) = tr @ evs \<and> (\<forall>ev\<in>set evs. \<not> is_create_task ev))"
    if "\<not> (\<exists>kvs u. get_json request = Inr (PDict kvs) \<and> map_of kvs ''url'' = Some (PStr u)
              \<and> prefix ''gs://'' u \<and> suffix ''.mp4'' u)"
  proof -
    have "snd (api_endpoint w g request tr) = snd (create_queue w g tr)"
      using endpoint_beyond_queue [of w g request tr] that by blast
    with create_queue_trace [of w g tr] show ?thesis by simp
  qed
  from A B C show ?thesis by blast
qed

text \<open>
  C8, as amended. \<^verbatim>\<open>api_endpoint\<close> runs \<^verbatim>\<open>create_queue\<close> before it reads the request, so
  every request, valid or not, starts with the client being built. The queue lookup
  follows when the client is built, \<^verbatim>\<open>QUEUE_CONFIG\<close> is a dictionary and \<^verbatim>\<open>queue_path\<close>
  returns; when the client or \<^verbatim>\<open>queue_path\<close> raises, or \<^verbatim>\<open>QUEUE_CONFIG\<close> is not a
  dictionary, the calls stop there. For a request that fails validation (no dictionary,
  no \<^verbatim>\<open>url\<close>, a \<^verbatim>\<open>url\<close> that is not a string, wrong scheme or wrong extension) the
  external calls are exactly those of \<^verbatim>\<open>create_queue\<close>, and no task is created.
\<close>

theorem endpoint_queue_first:
  "(\<exists>evs. snd (create_queue w g tr) = tr @ CloudTasksClient # evs)
   \<and> prefix (snd (create_queue w g tr)) (snd (api_endpoint w g request tr))
   \<and> (\<not> (\<exists>kvs u. get_json request = Inr (PDict kvs) \<and> map_of kvs ''url'' = Some (PStr u)
              \<and> prefix ''gs://'' u \<and> suffix ''.mp4'' u) \<longrightarrow>
        snd (api_endpoint w g request tr) = snd (create_queue w g tr)
        \<and> (\<exists>evs. snd (api_endpoint w g request tr) = tr @ evs \<and> (\<forall>ev\<in>set evs. \<not> is_create_task ev)))
   \<and> (raises w (tr @ [CloudTasksClient]) = None
        \<and> dict_get (QUEUE_CONFIG g) ''queue_id'' PNone = Inr queue_id
        \<and> raises w (tr @ [CloudTasksClient, Queue_path (PROJECT_ID g) (LOCATION g) queue_id]) = None \<longrightarrow>
        (\<exists>evs. snd (api_endpoint w g request tr) =
           tr @ [CloudTasksClient, Queue_path (PROJECT_ID g) (LOCATION g) queue_id,
                 Get_queue (returns_str w
                   (tr @ [CloudTasksClient, Queue_path (PROJECT_ID g) (LOCATION g) queue_id]))] @ evs))
   \<and> (raises w (tr @ [CloudTasksClient]) \<noteq> None \<longrightarrow>
        snd (api_endpoint w g request tr) = tr @ [CloudTasksClient])
   \<and> (raises w (tr @ [CloudTasksClient]) = None \<and> (\<forall>kvs. QUEUE_CONFIG g \<noteq> PDict kvs) \<longrightarrow>
        snd (api_endpoint w g request tr) = tr @ [CloudTasksClient])
   \<and> (raises w (tr @ [CloudTasksClient]) = None
        \<and> dict_get (QUEUE_CONFIG g) ''queue_id'' PNone = Inr queue_id
        \<and> raises w (tr @ [CloudTasksClient, Queue_path (PROJECT_ID g) (LOCATION g) queue_id]) \<noteq> None \<longrightarrow>
        snd (api_endpoint w g request tr) =
          tr @ [CloudTasksClient, Queue_path (PROJECT_ID g) (LOCATION g) queue_id])"
proof -
  have D: "\<exists>evs. snd (api_endpoint w g request tr) =
           tr @ [CloudTasksClient, Queue_path (PROJECT_ID g) (LOCATION g) queue_id,
                 Get_queue (returns_str w
                   (tr @ [CloudTasksClient, Queue_path (PROJECT_ID g) (LOCATION g) queue_id]))] @ evs"
    if h: "raises w (tr @ [CloudTasksClient]) = None"
      "dict_get (QUEUE_CONFIG g) ''queue_id'' PNone = Inr queue_id"
      "raises w (tr @ [CloudTasksClient, Queue_path (PROJECT_ID g) (LOCATION g) queue_id]) = None"
  proof -
    have "\<exists>evs. snd (create_queue w g tr) =
           tr @ [CloudTasksClient, Queue_path (PROJECT_ID g) (LOCATION g) queue_id,
                 Get_queue (returns_str w
                   (tr @ [CloudTasksClient, Queue_path (PROJECT_ID g) (LOCATION g) queue_id]))] @ evs"
      using h
      by (auto simp: create_queue_def run_simps Let_def split: option.splits sum.splits prod.splits)
    then obtain evs where e: "snd (create_queue w g tr) =
           tr @ [CloudTasksClient, Queue_path (PROJECT_ID g) (LOCATION g) queue_id,
                 Get_queue (returns_str w
                   (tr @ [CloudTasksClient, Queue_path (PROJECT_ID g) (LOCATION g) queue_id]))] @ evs"
      by blast
    from endpoint_trace_facts [of w g tr request]
    have "prefix (snd (create_queue w g tr)) (snd (api_endpoint w g request tr))" by blast
    then obtain zs where "snd (api_endpoint w g request tr) = snd (create_queue w g tr) @ zs"
      by (auto simp: prefix_def)
    with e show ?thesis by simp
  qed
  have fail: "snd (api_endpoint w g request tr) = snd (create_queue w g tr)"
    if "\<exists>e. fst (create_queue w g tr) = Inl e"
    using that endpoint_queue_raises [of w g tr _ request] by auto
  have E: "snd (api_endpoint w g request tr) = tr @ [CloudTasksClient]"
    if h: "raises w (tr @ [CloudTasksClient]) \<noteq> None"
  proof -
    have "create_queue w g tr = (Inl (the (raises w (tr @ [CloudTasksClient]))), tr @ [CloudTasksClient])"
      using h by (auto simp: create_queue_def run_simps)
    with fail show ?thesis by simp
  qed
  have F: "snd (api_endpoint w g request tr) = tr @ [CloudTasksClient]"
    if h: "raises w (tr @ [CloudTasksClient]) = None" "\<forall>kvs. QUEUE_CONFIG g \<noteq> PDict kvs"
  proof -
    have "create_queue w g tr = (Inl (no_attribute (QUEUE_CONFIG g) ''get''), tr @ [CloudTasksClient])"
      using h by (cases "QUEUE_CONFIG g") (auto simp: create_queue_def run_simps dict_get_def)
    with fail show ?thesis by simp
  qed
  have G: "snd (api_endpoint w g request tr) =
          tr @ [CloudTasksClient, Queue_path (PROJECT_ID g) (LOCATION g) queue_id]"
    if h: "raises w (tr @ [CloudTasksClient]) = None"
      "dict_get (QUEUE_CONFIG g) ''queue_id'' PNone = Inr queue_id"
      "raises w (tr @ [CloudTasksClient, Queue_path (PROJECT_ID g) (LOCATION g) queue_id]) \<noteq> None"
  proof -
    have "create_queue w g tr =
       (Inl (the (raises w (tr @ [CloudTasksClient, Queue_path (PROJECT_ID g) (LOCATION g) queue_id]))),
        tr @ [CloudTasksClient, Queue_path (PROJECT_ID g) (LOCATION g) queue_id])"
      using h by (auto simp: create_queue_def run_simps)
    with fail show ?thesis by simp
  qed
  from endpoint_trace_facts [of w g tr request] D E F G show ?thesis by blast
qed

theorem endpoint_queue_first_witness:
  "\<not> (\<exists>kvs u. get_json empty_request = Inr (PDict kvs) \<and> map_of kvs ''url'' = Some (PStr u)
              \<and> prefix ''gs://'' u \<and> suffix ''.mp4'' u)
   \<and> snd (api_endpoint calm_world some_globals empty_request []) =
       snd (create_queue calm_world some_globals [])
   \<and> (\<exists>evs. snd (api_endpoint calm_world some_globals empty_request []) = [] @ evs
          \<and> (\<forall>ev\<in>set evs. \<not> is_create_task ev))
   \<and> (\<exists>evs. snd (api_endpoint calm_world some_globals empty_request []) =
          [] @ [CloudTasksClient, Queue_path (PROJECT_ID some_globals) (LOCATION some_globals) PNone,
                Get_queue ''projects/proj/locations/us-central1/queues/None''] @ evs)
   \<and> snd (api_endpoint calm_world null_config_globals empty_request []) = [] @ [CloudTasksClient]"
proof -
  have h: "\<not> (\<exists>kvs u. get_json empty_request = Inr (PDict kvs) \<and> map_of kvs ''url'' = Some (PStr u)
              \<and> prefix ''gs://'' u \<and> suffix ''.mp4'' u)"
    by (simp add: empty_request_def)
  note T = endpoint_queue_first [of calm_world some_globals "[]" empty_request PNone]
  have a: "snd (api_endpoint calm_world some_globals empty_request []) =
             snd (create_queue calm_world some_globals [])
           \<and> (\<exists>evs. snd (api_endpoint calm_world some_globals empty_request []) = [] @ evs
                  \<and> (\<forall>ev\<in>set evs. \<not> is_create_task ev))"
    using T h by blast
  have l1: "raises calm_world ([] @ [CloudTasksClient]) = None" by (simp add: calm_world_def)
  have l2: "dict_get (QUEUE_CONFIG some_globals) ''queue_id'' PNone = Inr PNone"
    by (simp add: dict_get_def some_globals_def)
  have l3: "raises calm_world
      ([] @ [CloudTasksClient, Queue_path (PROJECT_ID some_globals) (LOCATION some_globals) PNone]) = None"
    by (simp add: calm_world_def)
  have l4: "returns_str calm_world
      ([] @ [CloudTasksClient, Queue_path (PROJECT_ID some_globals) (LOCATION some_globals) PNone]) =
      ''projects/proj/locations/us-central1/queues/None''"
    by (simp add: calm_world_def)
  from T l1 l2 l3 have "\<exists>evs. snd (api_endpoint calm_world some_globals empty_request []) =
          [] @ [CloudTasksClient, Queue_path (PROJECT_ID some_globals) (LOCATION some_globals) PNone,
                Get_queue (returns_str calm_world
                  ([] @ [CloudTasksClient,
                         Queue_path (PROJECT_ID some_globals) (LOCATION some_globals) PNone]))] @ evs"
    by blast
  then have b: "\<exists>evs. snd (api_endpoint calm_world some_globals empty_request []) =
          [] @ [CloudTasksClient, Queue_path (PROJECT_ID some_globals) (LOCATION some_globals) PNone,
                Get_queue ''projects/proj/locations/us-central1/queues/None''] @ evs"
    unfolding l4 .
  have n: "\<forall>kvs. QUEUE_CONFIG null_config_globals \<noteq> PDict kvs"
    by (simp add: null_config_globals_def)
  from endpoint_queue_first [of calm_world null_config_globals "[]" empty_request PNone] l1 n
  have c: "snd (api_endpoint calm_world null_config_globals empty_request []) = [] @ [CloudTasksClient]"
    by blast
  from h a b c show ?thesis by blast
qed

text \<open>
  The claim as stated fails on the empty body \<^verbatim>\<open>{}\<close>: the answer is 400, after the
  client was built and the queue looked up.
\<close>

theorem endpoint_queue_first_counterexample:
  "api_endpoint calm_world some_globals empty_request [] =
     (Inr (Text ''Error: No URL provided in request body.'', 400),
      [CloudTasksClient, Queue_path (Some ''proj'') ''us-central1'' PNone,
       Get_queue ''projects/proj/locations/us-central1/queues/None''])"
  by (simp add: endpoint_simps fixture_simps)

section \<open>Configuration that failed to load\<close>

lemma dict_get_empty: "dict_get (PDict []) k d = Inr d"
  by (simp add: dict_get_def)

lemma load_failure: 
  assumes "opened = Inl e \<or> (\<exists>f. opened = Inr f \<and> safe_load f = Inl e)"
  shows "load_queue_config opened safe_load = PDict []"
  using assms by (auto simp: load_queue_config_def)

lemma create_queue_empty_config:
  assumes "QUEUE_CONFIG g = PDict []"
  shows "\<exists>evs. snd (create_queue w g tr) = tr @ evs
           \<and> (\<forall>p l q. Queue_path p l q \<in> set evs \<longrightarrow> q = PNone)
           \<and> (\<forall>p q. Create_queue p q \<in> set evs \<longrightarrow>
                (\<exists>qp. q = PDict [(''name'', PStr qp), (''rate_limits'', PDict []),
                                  (''retry_config'', PDict [])]))
           \<and> (raises w (tr @ [CloudTasksClient]) = None \<longrightarrow>
                Queue_path (PROJECT_ID g) (LOCATION g) PNone \<in> set evs)"
  by (auto simp: create_queue_def run_simps Let_def assms dict_get_empty
      split: option.splits sum.splits prod.splits)

lemma create_cloud_task_empty_config:
  assumes "QUEUE_CONFIG g = PDict []"
  shows "\<exists>evs. snd (create_cloud_task w g url tr) = tr @ evs
           \<and> (\<forall>p l q. Queue_path p l q \<in> set evs \<longrightarrow> q = PNone)
           \<and> (raises w (tr @ [CloudTasksClient]) = None \<longrightarrow>
                Queue_path (PROJECT_ID g) (LOCATION g) PNone \<in> set evs)"
  by (auto simp: create_cloud_task_def run_simps Let_def assms dict_get_empty
      split: option.splits sum.splits prod.splits)

text \<open>
  C10. When opening \<^verbatim>\<open>queue_config.yaml\<close> or parsing it raises, \<^verbatim>\<open>_load_queue_config\<close>
  returns the empty dictionary and \<^verbatim>\<open>QUEUE_CONFIG\<close> is \<^verbatim>\<open>{}\<close>. Then every \<^verbatim>\<open>queue_path\<close>
  call of \<^verbatim>\<open>create_queue\<close> and of \<^verbatim>\<open>create_cloud_task\<close> gets \<^verbatim>\<open>None\<close> as the queue id (the
  call is made as soon as the client is built) and never the constant \<^verbatim>\<open>QUEUE_ID\<close>, and
  every queue that \<^verbatim>\<open>create_queue\<close> asks for has empty \<^verbatim>\<open>rate_limits\<close> and
  \<^verbatim>\<open>retry_config\<close>.
\<close>

theorem load_failure_defaults:
  assumes "opened = Inl e \<or> (\<exists>f. opened = Inr f \<and> safe_load f = Inl e)"
    and "g = module_init environ opened safe_load"
  shows "load_queue_config opened safe_load = PDict [] \<and> QUEUE_CONFIG g = PDict []
     \<and> PNone \<noteq> PStr QUEUE_ID
     \<and> (\<exists>evs. snd (create_queue w g tr) = tr @ evs
           \<and> (\<forall>p l q. Queue_path p l q \<in> set evs \<longrightarrow> q = PNone)
           \<and> (\<forall>p q. Create_queue p q \<in> set evs \<longrightarrow>
                (\<exists>qp. q = PDict [(''name'', PStr qp), (''rate_limits'', PDict []),
                                  (''retry_config'', PDict [])]))
           \<and> (raises w (tr @ [CloudTasksClient]) = None \<longrightarrow>
                Queue_path (PROJECT_ID g) (LOCATION g) PNone \<in> set evs))
     \<and> (\<exists>evs. snd (create_cloud_task w g url tr) = tr @ evs
           \<and> (\<forall>p l q. Queue_path p l q \<in> set evs \<longrightarrow> q = PNone)
           \<and> (raises w (tr @ [CloudTasksClient]) = None \<longrightarrow>
                Queue_path (PROJECT_ID g) (LOCATION g) PNone \<in> set evs))"
proof -
  have l: "load_queue_config opened safe_load = PDict []" by (rule load_failure [OF assms(1)])
  then have c: "QUEUE_CONFIG g = PDict []" by (simp add: assms(2) module_init_def)
  from l c create_queue_empty_config [OF c, of w tr] create_cloud_task_empty_config [OF c, of w url tr]
  show ?thesis by simp
qed

theorem load_failure_defaults_witness:
  "load_queue_config (Inl (Exn ''FileNotFoundError'' ''No such file or directory'')) (\<lambda>f. Inr PNone) = PDict []
   \<and> snd (create_queue (failing_world queue_race)
            (module_init (\<lambda>v. None) (Inl (Exn ''FileNotFoundError'' ''No such file or directory''))
               (\<lambda>f. Inr PNone)) []) =
      [CloudTasksClient, Queue_path None ''us-central1'' PNone,
       Get_queue ''projects/proj/locations/us-central1/queues/None'',
       Location_path None ''us-central1'',
       Create_queue ''projects/proj/locations/us-central1''
         (PDict [(''name'', PStr ''projects/proj/locations/us-central1/queues/None''),
                 (''rate_limits'', PDict []), (''retry_config'', PDict [])])]"
proof -
  have h: "Inl (Exn ''FileNotFoundError'' ''No such file or directory'') =
             Inl (Exn ''FileNotFoundError'' ''No such file or directory'')
           \<or> (\<exists>f. (Inl (Exn ''FileNotFoundError'' ''No such file or directory'') :: exn + string) = Inr f
                  \<and> (\<lambda>f. Inr PNone) f = Inl (Exn ''FileNotFoundError'' ''No such file or directory''))"
    by simp
  note T = load_failure_defaults [OF h refl, of "\<lambda>v. None"]
  have a: "load_queue_config (Inl (Exn ''FileNotFoundError'' ''No such file or directory''))
             (\<lambda>f. Inr PNone) = PDict []"
    using T by blast
  have c: "QUEUE_CONFIG (module_init (\<lambda>v. None)
             (Inl (Exn ''FileNotFoundError'' ''No such file or directory'')) (\<lambda>f. Inr PNone)) = PDict []"
    using T by blast
  have b: "snd (create_queue (failing_world queue_race)
            (module_init (\<lambda>v. None) (Inl (Exn ''FileNotFoundError'' ''No such file or directory''))
               (\<lambda>f. Inr PNone)) []) =
      [CloudTasksClient, Queue_path None ''us-central1'' PNone,
       Get_queue ''projects/proj/locations/us-central1/queues/None'',
       Location_path None ''us-central1'',
       Create_queue ''projects/proj/locations/us-central1''
         (PDict [(''name'', PStr ''projects/proj/locations/us-central1/queues/None''),
                 (''rate_limits'', PDict []), (''retry_config'', PDict [])])]"
    by (simp add: create_queue_def run_simps c dict_get_def Let_def sublist_code fixture_simps)
       (simp add: module_init_def)
  from a b show ?thesis by blast
qed

end
